theory Spec2Isabelle
  imports Complex_Main
begin

section \<open>Tensors\<close>

text \<open>
  The loss functions of \<^verbatim>\<open>lib/model/losses_tf.py\<close> work on rank-4 image tensors
  with layout (batch, height, width, channels). A tensor is a nested list, the outermost
  list being axis 0. Elements are real numbers: rounding, overflow and the non-finite
  values of the float type are outside the model.
\<close>

type_synonym tensor1 = "real list"
type_synonym tensor2 = "real list list"
type_synonym tensor3 = "real list list list"
type_synonym tensor4 = "real list list list list"

text \<open>A tensor of shape \<open>(B, H, W, C)\<close>: every nested list has the length of its axis.\<close>

definition shaped2 :: "nat \<Rightarrow> nat \<Rightarrow> 'a list list \<Rightarrow> bool" where
  "shaped2 W C r = (length r = W \<and> list_all (\<lambda>p. length p = C) r)"

definition shaped3 :: "nat \<Rightarrow> nat \<Rightarrow> nat \<Rightarrow> 'a list list list \<Rightarrow> bool" where
  "shaped3 H W C s = (length s = H \<and> list_all (shaped2 W C) s)"

definition shaped4 :: "nat \<Rightarrow> nat \<Rightarrow> nat \<Rightarrow> nat \<Rightarrow> 'a list list list list \<Rightarrow> bool" where
  "shaped4 B H W C t = (length t = B \<and> list_all (shaped3 H W C) t)"

text \<open>The constant tensor of a given shape.\<close>

definition full4 :: "nat \<Rightarrow> nat \<Rightarrow> nat \<Rightarrow> nat \<Rightarrow> real \<Rightarrow> tensor4" where
  "full4 B H W C v = replicate B (replicate H (replicate W (replicate C v)))"

text \<open>
  The errors that the model follows: a reflection padding that is not smaller than the
  axis, an index outside the channel axis, and the interpreter's division of a float by
  zero.
\<close>

datatype error = PaddingError | IndexError | ZeroDivisionError

subsection \<open>Slicing\<close>

text \<open>
  A slice \<^verbatim>\<open>xs[lo:hi]\<close> with step 1: a missing bound is \<open>None\<close>, a negative bound
  counts from the end, and bounds out of range are clamped, never an error.
\<close>

definition py_slice :: "int option \<Rightarrow> int option \<Rightarrow> 'a list \<Rightarrow> 'a list" where
  "py_slice lo hi xs =
     (let n = int (length xs);
          norm = (\<lambda>i. if i < 0 then max 0 (n + i) else min n i);
          l = (case lo of None \<Rightarrow> 0 | Some i \<Rightarrow> norm i);
          h = (case hi of None \<Rightarrow> n | Some i \<Rightarrow> norm i)
      in take (nat (h - l)) (drop (nat l) xs))"

text \<open>
  \<^verbatim>\<open>img[:, a, b, :]\<close>: the slice \<open>a\<close> (a pair of bounds) on the height axis and the
  slice \<open>b\<close> on the width axis.
\<close>

definition img_slice ::
  "int option \<times> int option \<Rightarrow> int option \<times> int option \<Rightarrow> 'a list list list list
     \<Rightarrow> 'a list list list list" where
  "img_slice a b img =
     map (\<lambda>s. map (py_slice (fst b) (snd b)) (py_slice (fst a) (snd a) s)) img"

abbreviation (input) All_slice :: "int option \<times> int option" where
  "All_slice \<equiv> (None, None)"

text \<open>\<^verbatim>\<open>y[..., lo:hi]\<close>: a slice on the last (channel) axis.\<close>

definition channel_slice :: "int option \<Rightarrow> int option \<Rightarrow> 'a list list list list
     \<Rightarrow> 'a list list list list" where
  "channel_slice lo hi y = map (map (map (py_slice lo hi))) y"

subsection \<open>Element-wise arithmetic and concatenation\<close>

text \<open>
  Binary operations pair the two tensors element by element. Operands of the source
  that differ in shape differ only by an axis of length 1 against one of length 0
  (slices of an axis shorter than 2), which the backend broadcasts to length 0, as
  pairing does.
\<close>

definition tmap :: "(real \<Rightarrow> real) \<Rightarrow> tensor4 \<Rightarrow> tensor4" where
  "tmap f t = map (map (map (map f))) t"

definition tzip :: "(real \<Rightarrow> real \<Rightarrow> real) \<Rightarrow> tensor4 \<Rightarrow> tensor4 \<Rightarrow> tensor4" where
  "tzip f a b = map2 (map2 (map2 (map2 f))) a b"

definition tadd :: "tensor4 \<Rightarrow> tensor4 \<Rightarrow> tensor4" where
  "tadd a b = tzip (+) a b"

definition tsub :: "tensor4 \<Rightarrow> tensor4 \<Rightarrow> tensor4" where
  "tsub a b = tzip (-) a b"

definition tmul :: "tensor4 \<Rightarrow> tensor4 \<Rightarrow> tensor4" where
  "tmul a b = tzip (*) a b"

text \<open>
  \<^verbatim>\<open>K.concatenate(ts, axis=k)\<close> for \<open>k = 1, 2\<close> and \<open>-1\<close>: the tensors are joined along
  axis \<open>k\<close>, position by position on the axes before it.
\<close>

fun concatenate1 :: "'a list list list \<Rightarrow> 'a list list" where
  "concatenate1 [] = []"
| "concatenate1 [t] = t"
| "concatenate1 (t # ts) = map2 (@) t (concatenate1 ts)"

fun concatenate2 :: "'a list list list list \<Rightarrow> 'a list list list" where
  "concatenate2 [] = []"
| "concatenate2 [t] = t"
| "concatenate2 (t # ts) = map2 (map2 (@)) t (concatenate2 ts)"

fun concatenate3 :: "'a list list list list list \<Rightarrow> 'a list list list list" where
  "concatenate3 [] = []"
| "concatenate3 [t] = t"
| "concatenate3 (t # ts) = map2 (map2 (map2 (@))) t (concatenate3 ts)"

section \<open>Gradient loss: the finite-difference helpers\<close>

text \<open>\<^verbatim>\<open>GradientLoss._diff_x\<close>\<close>

definition diff_x :: "tensor4 \<Rightarrow> tensor4" where
  "diff_x img =
     (let x_left = tsub (img_slice All_slice (Some 1, Some 2) img)
                        (img_slice All_slice (Some 0, Some 1) img);
          x_inner = tsub (img_slice All_slice (Some 2, None) img)
                         (img_slice All_slice (None, Some (- 2)) img);
          x_right = tsub (img_slice All_slice (Some (- 1), None) img)
                         (img_slice All_slice (Some (- 2), Some (- 1)) img);
          x_out = concatenate2 [x_left, x_inner, x_right]
      in tmap (\<lambda>v. v * 0.5) x_out)"

text \<open>\<^verbatim>\<open>GradientLoss._diff_y\<close>\<close>

definition diff_y :: "tensor4 \<Rightarrow> tensor4" where
  "diff_y img =
     (let y_top = tsub (img_slice (Some 1, Some 2) All_slice img)
                       (img_slice (Some 0, Some 1) All_slice img);
          y_inner = tsub (img_slice (Some 2, None) All_slice img)
                         (img_slice (None, Some (- 2)) All_slice img);
          y_bot = tsub (img_slice (Some (- 1), None) All_slice img)
                       (img_slice (Some (- 2), Some (- 1)) All_slice img);
          y_out = concatenate1 [y_top, y_inner, y_bot]
      in tmap (\<lambda>v. v * 0.5) y_out)"

text \<open>\<^verbatim>\<open>GradientLoss._diff_xx\<close>\<close>

definition diff_xx :: "tensor4 \<Rightarrow> tensor4" where
  "diff_xx img =
     (let x_left = tadd (img_slice All_slice (Some 1, Some 2) img)
                        (img_slice All_slice (Some 0, Some 1) img);
          x_inner = tadd (img_slice All_slice (Some 2, None) img)
                         (img_slice All_slice (None, Some (- 2)) img);
          x_right = tadd (img_slice All_slice (Some (- 1), None) img)
                         (img_slice All_slice (Some (- 2), Some (- 1)) img);
          x_out = concatenate2 [x_left, x_inner, x_right]
      in tsub x_out (tmap (\<lambda>v. 2.0 * v) img))"

text \<open>\<^verbatim>\<open>GradientLoss._diff_yy\<close>\<close>

definition diff_yy :: "tensor4 \<Rightarrow> tensor4" where
  "diff_yy img =
     (let y_top = tadd (img_slice (Some 1, Some 2) All_slice img)
                       (img_slice (Some 0, Some 1) All_slice img);
          y_inner = tadd (img_slice (Some 2, None) All_slice img)
                         (img_slice (None, Some (- 2)) All_slice img);
          y_bot = tadd (img_slice (Some (- 1), None) All_slice img)
                       (img_slice (Some (- 2), Some (- 1)) All_slice img);
          y_out = concatenate1 [y_top, y_inner, y_bot]
      in tsub y_out (tmap (\<lambda>v. 2.0 * v) img))"

text \<open>
  \<^verbatim>\<open>GradientLoss._diff_xy\<close>. The source assigns \<^verbatim>\<open>top_left\<close> ... \<^verbatim>\<open>xy_right\<close> twice;
  the second assignment overwrites the first, so the names bound by the second
  \<open>let\<close> block shadow those of the first, and both \<^verbatim>\<open>xy_out1\<close> and \<^verbatim>\<open>xy_out2\<close> are
  built from the second set.
\<close>

definition diff_xy :: "tensor4 \<Rightarrow> tensor4" where
  "diff_xy img =
     (let top_left = tadd (img_slice (Some 1, Some 2) (Some 1, Some 2) img)
                          (img_slice (Some 0, Some 1) (Some 0, Some 1) img);
          inner_left = tadd (img_slice (Some 2, None) (Some 1, Some 2) img)
                            (img_slice (None, Some (- 2)) (Some 0, Some 1) img);
          bot_left = tadd (img_slice (Some (- 1), None) (Some 1, Some 2) img)
                          (img_slice (Some (- 2), Some (- 1)) (Some 0, Some 1) img);
          xy_left = concatenate1 [top_left, inner_left, bot_left];

          top_mid = tadd (img_slice (Some 1, Some 2) (Some 2, None) img)
                         (img_slice (Some 0, Some 1) (None, Some (- 2)) img);
          mid_mid = tadd (img_slice (Some 2, None) (Some 2, None) img)
                         (img_slice (None, Some (- 2)) (None, Some (- 2)) img);
          bot_mid = tadd (img_slice (Some (- 1), None) (Some 2, None) img)
                         (img_slice (Some (- 2), Some (- 1)) (None, Some (- 2)) img);
          xy_mid = concatenate1 [top_mid, mid_mid, bot_mid];

          top_right = tadd (img_slice (Some 1, Some 2) (Some (- 1), None) img)
                           (img_slice (Some 0, Some 1) (Some (- 2), Some (- 1)) img);
          inner_right = tadd (img_slice (Some 2, None) (Some (- 1), None) img)
                             (img_slice (None, Some (- 2)) (Some (- 2), Some (- 1)) img);
          bot_right = tadd (img_slice (Some (- 1), None) (Some (- 1), None) img)
                           (img_slice (Some (- 2), Some (- 1)) (Some (- 2), Some (- 1)) img);
          xy_right = concatenate1 [top_right, inner_right, bot_right];

          top_left = tadd (img_slice (Some 0, Some 1) (Some 1, Some 2) img)
                          (img_slice (Some 1, Some 2) (Some 0, Some 1) img);
          inner_left = tadd (img_slice (None, Some (- 2)) (Some 1, Some 2) img)
                            (img_slice (Some 2, None) (Some 0, Some 1) img);
          bot_left = tadd (img_slice (Some (- 2), Some (- 1)) (Some 1, Some 2) img)
                          (img_slice (Some (- 1), None) (Some 0, Some 1) img);
          xy_left = concatenate1 [top_left, inner_left, bot_left];

          top_mid = tadd (img_slice (Some 0, Some 1) (Some 2, None) img)
                         (img_slice (Some 1, Some 2) (None, Some (- 2)) img);
          mid_mid = tadd (img_slice (None, Some (- 2)) (Some 2, None) img)
                         (img_slice (Some 2, None) (None, Some (- 2)) img);
          bot_mid = tadd (img_slice (Some (- 2), Some (- 1)) (Some 2, None) img)
                         (img_slice (Some (- 1), None) (None, Some (- 2)) img);
          xy_mid = concatenate1 [top_mid, mid_mid, bot_mid];

          top_right = tadd (img_slice (Some 0, Some 1) (Some (- 1), None) img)
                           (img_slice (Some 1, Some 2) (Some (- 2), Some (- 1)) img);
          inner_right = tadd (img_slice (None, Some (- 2)) (Some (- 1), None) img)
                             (img_slice (Some 2, None) (Some (- 2), Some (- 1)) img);
          bot_right = tadd (img_slice (Some (- 2), Some (- 1)) (Some (- 1), None) img)
                           (img_slice (Some (- 1), None) (Some (- 2), Some (- 1)) img);
          xy_right = concatenate1 [top_right, inner_right, bot_right];

          xy_out1 = concatenate2 [xy_left, xy_mid, xy_right];
          xy_out2 = concatenate2 [xy_left, xy_mid, xy_right]
      in tmap (\<lambda>v. v * 0.25) (tsub xy_out1 xy_out2))"

section \<open>Backend primitives\<close>

text \<open>
  \<^verbatim>\<open>K.pow\<close> on reals: an integral exponent is repeated multiplication (so the base may
  be negative, as in \<^verbatim>\<open>K.pow(x, 2.)\<close>), any other exponent is the real power of a
  positive base.
\<close>

definition K_pow :: "real \<Rightarrow> real \<Rightarrow> real" where
  "K_pow x a = (if a = of_int \<lfloor>a\<rfloor> then x powi \<lfloor>a\<rfloor> else x powr a)"

text \<open>\<^verbatim>\<open>K.mean\<close> along one axis, here of its list of entries.\<close>

definition K_mean :: "real list \<Rightarrow> real" where
  "K_mean xs = sum_list xs / real (length xs)"

text \<open>
  \<^verbatim>\<open>K.max(x, axis=(1, 2), keepdims=True)\<close> on one sample (height, width, channels):
  the entry-wise maximum of the rows, then of the pixels, kept as a \<open>1 \<times> 1\<close> image.
  The backend reduces an empty axis to \<open>-\<infinity>\<close>; here an empty axis leaves no entry.
\<close>

definition max_over :: "('a \<Rightarrow> 'a \<Rightarrow> 'a) \<Rightarrow> 'a list \<Rightarrow> 'a option" where
  "max_over m xs = (case xs of [] \<Rightarrow> None | x # rest \<Rightarrow> Some (foldl m x rest))"

definition K_max_12 :: "tensor3 \<Rightarrow> tensor3" where
  "K_max_12 s =
     (case max_over (map2 (map2 max)) s of
        None \<Rightarrow> [[[]]]
      | Some r \<Rightarrow> (case max_over (map2 max) r of None \<Rightarrow> [[[]]] | Some p \<Rightarrow> [[p]]))"

text \<open>
  \<^verbatim>\<open>K.std(x, axis=(1, 2, 3), keepdims=True)\<close> followed by \<^verbatim>\<open>K.squeeze(axis=-1)\<close> on
  one sample: the population standard deviation of all its entries, as a \<open>1 \<times> 1\<close> image.
\<close>

definition K_std :: "real list \<Rightarrow> real" where
  "K_std xs = sqrt (K_mean (map (\<lambda>x. (x - K_mean xs)\<^sup>2) xs))"

definition K_std_123 :: "tensor3 \<Rightarrow> tensor2" where
  "K_std_123 s = [[K_std (concat (concat s))]]"

section \<open>Generalized loss\<close>

record GeneralizedLoss =
  alpha :: real
  beta :: real

text \<open>
  \<^verbatim>\<open>GeneralizedLoss.__init__\<close> stores its two parameters (defaults \<open>1.0\<close> and
  \<open>1.0/255.0\<close>) and nothing else.
\<close>

definition GeneralizedLoss_init :: "real \<Rightarrow> real \<Rightarrow> GeneralizedLoss" where
  "GeneralizedLoss_init a b = \<lparr>alpha = a, beta = b\<rparr>"

text \<open>\<^verbatim>\<open>GeneralizedLoss.call\<close>\<close>

definition GeneralizedLoss_call :: "GeneralizedLoss \<Rightarrow> tensor4 \<Rightarrow> tensor4 \<Rightarrow> tensor3" where
  "GeneralizedLoss_call self y_true y_pred =
     (let diff = tsub y_pred y_true;
          second = tmap (\<lambda>d. K_pow (K_pow (d / beta self) 2 / \<bar>2 - alpha self\<bar> + 1)
                                 (alpha self / 2) - 1) diff;
          loss = tmap (\<lambda>v. (\<bar>2 - alpha self\<bar> / alpha self) * v) second;
          loss = map (map (map (\<lambda>p. K_mean p * beta self))) loss
      in loss)"

text \<open>
  Calling a loss object applies \<^verbatim>\<open>tf.keras.losses.Loss.__call__\<close>, which reduces the
  tensor \<^verbatim>\<open>call\<close> returns; with the default reduction the result is the sum of all
  entries divided by their number (0 when there is none).
\<close>

definition Loss_call :: "(tensor4 \<Rightarrow> tensor4 \<Rightarrow> tensor3) \<Rightarrow> tensor4 \<Rightarrow> tensor4 \<Rightarrow> real" where
  "Loss_call call y_true y_pred =
     (let losses = concat (concat (call y_true y_pred))
      in if losses = [] then 0 else sum_list losses / real (length losses))"

section \<open>Generalized loss in floating-point arithmetic\<close>

text \<open>
  The backend computes on IEEE 754 numbers: besides the finite values there are the two
  infinities and the undefined value (``not a number''), and no operation of the backend
  raises on them. Finite values are kept as reals (rounding and overflow are left out)
  and a zero has no sign: it counts as positive, as the zeros \<^verbatim>\<open>K.abs\<close> and the literal
  \<open>0.0\<close> are.
\<close>

datatype fl = Fin real | PInf | NInf | NaN

definition fl_pos :: "fl \<Rightarrow> bool" where
  "fl_pos x = (case x of Fin a \<Rightarrow> 0 \<le> a | PInf \<Rightarrow> True | NInf \<Rightarrow> False | NaN \<Rightarrow> True)"

fun fl_neg :: "fl \<Rightarrow> fl" where
  "fl_neg (Fin a) = Fin (- a)"
| "fl_neg PInf = NInf"
| "fl_neg NInf = PInf"
| "fl_neg NaN = NaN"

text \<open>\<^verbatim>\<open>K.abs\<close>\<close>

fun fl_abs :: "fl \<Rightarrow> fl" where
  "fl_abs (Fin a) = Fin \<bar>a\<bar>"
| "fl_abs PInf = PInf"
| "fl_abs NInf = PInf"
| "fl_abs NaN = NaN"

text \<open>Addition: the sum of the two opposite infinities is undefined.\<close>

fun fl_add :: "fl \<Rightarrow> fl \<Rightarrow> fl" where
  "fl_add (Fin a) (Fin b) = Fin (a + b)"
| "fl_add NaN _ = NaN"
| "fl_add _ NaN = NaN"
| "fl_add PInf NInf = NaN"
| "fl_add NInf PInf = NaN"
| "fl_add PInf _ = PInf"
| "fl_add _ PInf = PInf"
| "fl_add NInf _ = NInf"
| "fl_add _ NInf = NInf"

definition fl_sub :: "fl \<Rightarrow> fl \<Rightarrow> fl" where
  "fl_sub x y = fl_add x (fl_neg y)"

text \<open>Multiplication: zero times an infinity is undefined.\<close>

definition fl_mul :: "fl \<Rightarrow> fl \<Rightarrow> fl" where
  "fl_mul x y =
     (if x = NaN \<or> y = NaN then NaN
      else case (x, y) of
        (Fin a, Fin b) \<Rightarrow> Fin (a * b)
      | _ \<Rightarrow> (if x = Fin 0 \<or> y = Fin 0 then NaN
              else if fl_pos x = fl_pos y then PInf else NInf))"

text \<open>
  Division of tensors: a non-zero value over zero is an infinity, zero over zero and an
  infinity over an infinity are undefined, a finite value over an infinity is zero.
\<close>

fun fl_div :: "fl \<Rightarrow> fl \<Rightarrow> fl" where
  "fl_div NaN _ = NaN"
| "fl_div _ NaN = NaN"
| "fl_div (Fin a) (Fin b) =
     (if b \<noteq> 0 then Fin (a / b) else if a = 0 then NaN else if 0 < a then PInf else NInf)"
| "fl_div (Fin a) _ = Fin 0"
| "fl_div x (Fin b) = (if fl_pos x = (0 \<le> b) then PInf else NInf)"
| "fl_div _ _ = NaN"

text \<open>
  \<^verbatim>\<open>K.pow\<close> with a finite exponent: every base to the power 0 is 1, the undefined value
  included; a negative base to a fractional power is undefined; zero to a negative power
  is infinite.
\<close>

definition fl_pow :: "fl \<Rightarrow> real \<Rightarrow> fl" where
  "fl_pow x y =
     (if y = 0 then Fin 1
      else case x of
        NaN \<Rightarrow> NaN
      | PInf \<Rightarrow> (if 0 < y then PInf else Fin 0)
      | NInf \<Rightarrow> (if 0 < y then (if y = of_int \<lfloor>y\<rfloor> \<and> odd \<lfloor>y\<rfloor> then NInf else PInf) else Fin 0)
      | Fin v \<Rightarrow> (if v = 0 \<and> y < 0 then PInf
                  else if v < 0 \<and> y \<noteq> of_int \<lfloor>y\<rfloor> then NaN
                  else Fin (K_pow v y)))"

text \<open>\<^verbatim>\<open>K.mean\<close> along one axis: the sum of the entries over their number.\<close>

definition fl_mean :: "fl list \<Rightarrow> fl" where
  "fl_mean xs = fl_div (foldl fl_add (Fin 0) xs) (Fin (real (length xs)))"

text \<open>
  The division of two Python floats, the only operation of \<^verbatim>\<open>GeneralizedLoss.call\<close>
  that can raise: \<^verbatim>\<open>self.alpha / 2.\<close> is evaluated by the interpreter, not by the backend.
\<close>

definition py_truediv :: "real \<Rightarrow> real \<Rightarrow> error + real" where
  "py_truediv a b = (if b = 0 then Inl ZeroDivisionError else Inr (a / b))"

text \<open>
  \<^verbatim>\<open>GeneralizedLoss.call\<close>, operation by operation, on floating-point numbers. The inputs
  are tensors of finite values. \<^verbatim>\<open>2. - self.alpha\<close> is a subtraction of Python floats;
  \<^verbatim>\<open>K.abs\<close> makes it a tensor, so the two divisions by it and by \<^verbatim>\<open>self.alpha\<close> are the
  backend's.
\<close>

definition GeneralizedLoss_call_float ::
  "GeneralizedLoss \<Rightarrow> tensor4 \<Rightarrow> tensor4 \<Rightarrow> error + fl list list list" where
  "GeneralizedLoss_call_float self y_true y_pred =
     (case py_truediv (alpha self) 2.0 of
        Inl e \<Rightarrow> Inl e
      | Inr half_alpha \<Rightarrow>
          (let diff = map (map (map (map Fin))) (tsub y_pred y_true);
               second = map (map (map (map (\<lambda>d.
                   fl_sub (fl_pow (fl_add (fl_div (fl_pow (fl_div d (Fin (beta self))) 2.0)
                                                  (fl_abs (Fin (2.0 - alpha self))))
                                          (Fin 1.0))
                                  half_alpha)
                          (Fin 1.0))))) diff;
               loss = map (map (map (map
                   (fl_mul (fl_div (fl_abs (Fin (2.0 - alpha self))) (Fin (alpha self))))))) second;
               loss = map (map (map (\<lambda>p. fl_mul (fl_mean p) (Fin (beta self))))) loss
           in Inr loss))"

section \<open>L-infinity norm\<close>

text \<open>\<^verbatim>\<open>LInfNorm.call\<close>\<close>

definition LInfNorm_call :: "tensor4 \<Rightarrow> tensor4 \<Rightarrow> tensor3" where
  "LInfNorm_call y_true y_pred =
     (let diff = tmap abs (tsub y_true y_pred);
          max_loss = map K_max_12 diff;
          loss = map (map (map K_mean)) max_loss
      in loss)"

section \<open>Gradient loss\<close>

text \<open>
  \<^verbatim>\<open>GradientLoss.__init__\<close> builds \<^verbatim>\<open>GeneralizedLoss(alpha=1.9999)\<close>;
  \<^verbatim>\<open>GradientLoss.call\<close> calls that object on the pairs of derivative fields.
\<close>

definition GradientLoss_generalized_loss :: "tensor4 \<Rightarrow> tensor4 \<Rightarrow> real" where
  "GradientLoss_generalized_loss =
     Loss_call (GeneralizedLoss_call (GeneralizedLoss_init 1.9999 (1.0 / 255.0)))"

definition GradientLoss_call :: "tensor4 \<Rightarrow> tensor4 \<Rightarrow> real" where
  "GradientLoss_call y_true y_pred =
     (let generalized_loss = GradientLoss_generalized_loss;
          tv_weight = 1.0;
          tv2_weight = 1.0;
          loss = 0.0;
          loss = loss + tv_weight * (generalized_loss (diff_x y_true) (diff_x y_pred) +
                                     generalized_loss (diff_y y_true) (diff_y y_pred));
          loss = loss + tv2_weight * (generalized_loss (diff_xx y_true) (diff_xx y_pred) +
                                      generalized_loss (diff_yy y_true) (diff_yy y_pred) +
                                      generalized_loss (diff_xy y_true) (diff_xy y_pred) * 2);
          loss = loss / (tv_weight + tv2_weight)
      in loss)"

section \<open>Structural similarity losses\<close>

text \<open>
  \<^verbatim>\<open>tf.image.ssim\<close> and \<^verbatim>\<open>tf.image.ssim_multiscale\<close> belong to the tensor library, not
  to this file: the losses take them as parameters. Both return one value per batch
  sample. The arguments are, in the order of the calls below: the two images,
  \<^verbatim>\<open>max_val\<close>, (\<^verbatim>\<open>power_factors\<close>,) \<^verbatim>\<open>filter_size\<close>, \<^verbatim>\<open>filter_sigma\<close>, \<^verbatim>\<open>k1\<close>, \<^verbatim>\<open>k2\<close>.
\<close>

type_synonym ssim_fn =
  "tensor4 \<Rightarrow> tensor4 \<Rightarrow> real \<Rightarrow> int \<Rightarrow> real \<Rightarrow> real \<Rightarrow> real \<Rightarrow> real list"

type_synonym ssim_multiscale_fn =
  "tensor4 \<Rightarrow> tensor4 \<Rightarrow> real \<Rightarrow> real list \<Rightarrow> int \<Rightarrow> real \<Rightarrow> real \<Rightarrow> real \<Rightarrow> real list"

text \<open>
  The fields of \<^verbatim>\<open>DSSIMObjective\<close> are \<^verbatim>\<open>_filter_size\<close>, \<^verbatim>\<open>_filter_sigma\<close>, \<^verbatim>\<open>_k_1\<close>,
  \<^verbatim>\<open>_k_2\<close> and \<^verbatim>\<open>_max_value\<close>; a name cannot start with an underscore here.
\<close>

record DSSIMObjective =
  p_filter_size :: int
  p_filter_sigma :: real
  p_k_1 :: real
  p_k_2 :: real
  p_max_value :: real

text \<open>\<^verbatim>\<open>DSSIMObjective.call\<close>\<close>

definition DSSIMObjective_call :: "ssim_fn \<Rightarrow> DSSIMObjective \<Rightarrow> tensor4 \<Rightarrow> tensor4 \<Rightarrow> real list" where
  "DSSIMObjective_call tf_image_ssim self y_true y_pred =
     (let ssim = tf_image_ssim y_true y_pred (p_max_value self) (p_filter_size self)
                   (p_filter_sigma self) (p_k_1 self) (p_k_2 self);
          dssim_loss = map (\<lambda>v. (1 - v) / 2.0) ssim
      in dssim_loss)"

record MSSSIMLoss =
  filter_size :: int
  filter_sigma :: real
  k_1 :: real
  k_2 :: real
  max_value :: real
  power_factors :: "real list"

text \<open>\<^verbatim>\<open>MSSSIMLoss._get_smallest_size\<close>: the recursion stops when \<open>idx\<close> is not positive.\<close>

function get_smallest_size :: "int \<Rightarrow> int \<Rightarrow> int" where
  "get_smallest_size sz idx =
     (if idx > 0 then get_smallest_size (sz div 2) (idx - 1) else sz)"
  by pat_completeness auto
termination
  by (relation "measure (\<lambda>(sz, idx). nat idx)") auto

declare get_smallest_size.simps [simp del]

text \<open>
  \<^verbatim>\<open>K.int_shape(y_true)[1]\<close>: the height of the tensor, read off its first sample
  (0 when the batch is empty).
\<close>

definition int_shape_1 :: "'a list list list list \<Rightarrow> int" where
  "int_shape_1 t = (case t of [] \<Rightarrow> 0 | s # _ \<Rightarrow> int (length s))"

text \<open>\<^verbatim>\<open>MSSSIMLoss.call\<close>\<close>

definition MSSSIMLoss_call ::
  "ssim_multiscale_fn \<Rightarrow> MSSSIMLoss \<Rightarrow> tensor4 \<Rightarrow> tensor4 \<Rightarrow> real list" where
  "MSSSIMLoss_call tf_image_ssim_multiscale self y_true y_pred =
     (let im_size = int_shape_1 y_true;
          smallest_scale = get_smallest_size im_size (int (length (power_factors self)) - 1);
          filter_size = min (filter_size self) smallest_scale;
          ms_ssim = tf_image_ssim_multiscale y_true y_pred (max_value self)
                      (power_factors self) filter_size (filter_sigma self)
                      (k_1 self) (k_2 self);
          ms_ssim_loss = map (\<lambda>v. 1 - v) ms_ssim
      in ms_ssim_loss)"

section \<open>Gradient magnitude similarity deviation\<close>

text \<open>The \<open>5 \<times> 5 \<times> 1 \<times> 2\<close> kernel of \<^verbatim>\<open>GMSDLoss._scharr_edges\<close>.\<close>

definition scharr_matrix :: tensor4 where
  "scharr_matrix =
     [[[[0.00070, 0.00070]],
       [[0.00520, 0.00370]],
       [[0.03700, 0.00000]],
       [[0.00520, - 0.0037]],
       [[0.00070, - 0.0007]]],
      [[[0.00370, 0.00520]],
       [[0.11870, 0.11870]],
       [[0.25890, 0.00000]],
       [[0.11870, - 0.1187]],
       [[0.00370, - 0.0052]]],
      [[[0.00000, 0.03700]],
       [[0.00000, 0.25890]],
       [[0.00000, 0.00000]],
       [[0.00000, - 0.2589]],
       [[0.00000, - 0.0370]]],
      [[[- 0.0037, 0.00520]],
       [[- 0.1187, 0.11870]],
       [[- 0.2589, 0.00000]],
       [[- 0.1187, - 0.1187]],
       [[- 0.0037, - 0.0052]]],
      [[[- 0.0007, 0.00070]],
       [[- 0.0052, 0.00370]],
       [[- 0.0370, 0.00000]],
       [[- 0.0052, - 0.0037]],
       [[- 0.0007, - 0.0007]]]]"

text \<open>
  \<^verbatim>\<open>K.shape(image)[-1]\<close>: the number of channels, read off the first pixel (0 when
  the tensor has no pixel).
\<close>

definition last_dim :: "'a list list list list \<Rightarrow> nat" where
  "last_dim t = (case concat (concat t) of [] \<Rightarrow> 0 | p # _ \<Rightarrow> length p)"

text \<open>\<^verbatim>\<open>K.tile(kernels, [1, 1, n, 1])\<close>: \<open>n\<close> copies along axis 2.\<close>

definition K_tile_2 :: "nat \<Rightarrow> tensor4 \<Rightarrow> tensor4" where
  "K_tile_2 n k = map (map (\<lambda>c. concat (replicate n c))) k"

text \<open>
  \<^verbatim>\<open>tf.pad(image, [[0, 0], [2, 2], [2, 2], [0, 0]], mode='REFLECT')\<close>: two mirrored
  entries, the border entry left out, before and after the height and the width axis.
  The library refuses a padding that is not smaller than the axis it pads.
\<close>

definition reflect2 :: "'a list \<Rightarrow> 'a list" where
  "reflect2 xs = rev (take 2 (tl xs)) @ xs @ take 2 (tl (rev xs))"

definition tf_pad_reflect :: "tensor4 \<Rightarrow> error + tensor4" where
  "tf_pad_reflect img =
     (if list_all (\<lambda>s. 2 < length s \<and> list_all (\<lambda>r. 2 < length r) s) img
      then Inr (map (\<lambda>s. map reflect2 (reflect2 s)) img)
      else Inl PaddingError)"

text \<open>
  \<^verbatim>\<open>K.depthwise_conv2d(x, kernels)\<close> with its defaults (stride 1, no padding, channels
  last): output channel \<open>c * m + q\<close> at \<open>(i, j)\<close> is the sum over the window of input
  channel \<open>c\<close> times the kernel \<open>(c, q)\<close>, \<open>m\<close> being the kernel's last dimension.
  The length of an inner axis is read off the first entry of the axis around it (0 when
  there is none).
\<close>

definition axis1 :: "'a list list \<Rightarrow> nat" where
  "axis1 t = (case t of [] \<Rightarrow> 0 | x # _ \<Rightarrow> length x)"

definition depthwise_conv2d :: "tensor4 \<Rightarrow> tensor4 \<Rightarrow> tensor4" where
  "depthwise_conv2d x k =
     (let kh = length k; kw = axis1 k;
          cs = axis1 (concat k); m = axis1 (concat (concat k))
      in map (\<lambda>s.
           map (\<lambda>i.
             map (\<lambda>j.
               concat (map (\<lambda>c.
                 map (\<lambda>q. (\<Sum>di \<leftarrow> [0..<kh]. \<Sum>dj \<leftarrow> [0..<kw].
                              s ! (i + di) ! (j + dj) ! c * k ! di ! dj ! c ! q))
                   [0..<m]) [0..<cs]))
               [0..<axis1 s + 1 - kw])
             [0..<length s + 1 - kh]) x)"

text \<open>
  \<^verbatim>\<open>GMSDLoss._scharr_edges(image, True)\<close>. Every call in the file passes
  \<^verbatim>\<open>magnitude=True\<close>, which returns the output of the convolution; the other branch
  (edge directions) has no caller and is left out.
\<close>

definition scharr_edges :: "tensor4 \<Rightarrow> error + tensor4" where
  "scharr_edges img =
     (let kernels = K_tile_2 (last_dim img) scharr_matrix
      in case tf_pad_reflect img of
           Inl e \<Rightarrow> Inl e
         | Inr padded \<Rightarrow> Inr (depthwise_conv2d padded kernels))"

text \<open>\<^verbatim>\<open>GMSDLoss.call\<close>\<close>

definition GMSDLoss_call :: "tensor4 \<Rightarrow> tensor4 \<Rightarrow> error + tensor3" where
  "GMSDLoss_call y_true y_pred =
     (case scharr_edges y_true of
        Inl e \<Rightarrow> Inl e
      | Inr true_edge \<Rightarrow>
          (case scharr_edges y_pred of
             Inl e \<Rightarrow> Inl e
           | Inr pred_edge \<Rightarrow>
               (let ephsilon = 0.0025;
                    upper = tmul (tmap (\<lambda>v. 2.0 * v) true_edge) pred_edge;
                    lower = tadd (tmap (\<lambda>v. v\<^sup>2) true_edge) (tmap (\<lambda>v. v\<^sup>2) pred_edge);
                    gms = tzip (/) (tmap (\<lambda>v. v + ephsilon) upper)
                                   (tmap (\<lambda>v. v + ephsilon) lower);
                    gmsd = map K_std_123 gms
                in Inr gmsd)))"

section \<open>Loss wrapper\<close>

text \<open>
  The three lists of \<^verbatim>\<open>LossWrapper\<close>. A registered function is the
  \<^verbatim>\<open>LossesContainer\<close> built around the loss; it is a parameter of the model, taken to
  return a number.
\<close>

record LossWrapper =
  loss_functions :: "(tensor4 \<Rightarrow> tensor4 \<Rightarrow> real) list"
  loss_weights :: "real list"
  mask_channels :: "int list"

text \<open>\<^verbatim>\<open>LossWrapper.__init__\<close>\<close>

definition LossWrapper_init :: LossWrapper where
  "LossWrapper_init = \<lparr>loss_functions = [], loss_weights = [], mask_channels = []\<rparr>"

text \<open>\<^verbatim>\<open>LossWrapper.add_loss\<close> (defaults: weight \<open>1.0\<close>, mask channel \<open>-1\<close>)\<close>

definition add_loss :: "(tensor4 \<Rightarrow> tensor4 \<Rightarrow> real) \<Rightarrow> real \<Rightarrow> int \<Rightarrow> LossWrapper \<Rightarrow> LossWrapper" where
  "add_loss function weight mask_channel self =
     self\<lparr>loss_functions := loss_functions self @ [function],
          loss_weights := loss_weights self @ [weight],
          mask_channels := mask_channels self @ [mask_channel]\<rparr>"

text \<open>
  \<^verbatim>\<open>y[..., k]\<close>: entry \<open>k\<close> of every pixel, a negative \<open>k\<close> counting from the end; an
  index outside the channel axis is an error.
\<close>

definition py_index :: "int \<Rightarrow> 'a list \<Rightarrow> error + 'a" where
  "py_index k xs =
     (let n = int (length xs); j = (if k < 0 then n + k else k)
      in if 0 \<le> j \<and> j < n then Inr (xs ! nat j) else Inl IndexError)"

fun collect :: "(error + 'a) list \<Rightarrow> error + 'a list" where
  "collect [] = Inr []"
| "collect (x # xs) =
     (case x of
        Inl e \<Rightarrow> Inl e
      | Inr v \<Rightarrow> (case collect xs of Inl e \<Rightarrow> Inl e | Inr vs \<Rightarrow> Inr (v # vs)))"

definition channel_index :: "int \<Rightarrow> tensor4 \<Rightarrow> error + tensor3" where
  "channel_index k y =
     collect (map (\<lambda>s. collect (map (\<lambda>r. collect (map (py_index k) r)) s)) y)"

text \<open>\<^verbatim>\<open>LossWrapper._apply_mask\<close>\<close>

definition apply_mask :: "tensor4 \<Rightarrow> tensor4 \<Rightarrow> int \<Rightarrow> real \<Rightarrow> error + tensor4 \<times> tensor4" where
  "apply_mask y_true y_pred mask_channel mask_prop =
     (if mask_channel = - 1
      then Inr (channel_slice None (Some 3) y_true, channel_slice None (Some 3) y_pred)
      else
        (case channel_index mask_channel y_true of
           Inl e \<Rightarrow> Inl e
         | Inr m \<Rightarrow>
             (let mask = map (map (map (\<lambda>v. [v]))) m;
                  mask_as_k_inv_prop = 1 - mask_prop;
                  mask = tmap (\<lambda>v. v * mask_prop + mask_as_k_inv_prop) mask;
                  n_true = concatenate3
                    (map (\<lambda>i. tmul (channel_slice (Some i) (Some (i + 1)) y_true) mask)
                       [0, 1, 2]);
                  n_pred = concatenate3
                    (map (\<lambda>i. tmul (channel_slice (Some i) (Some (i + 1)) y_pred) mask)
                       [0, 1, 2])
              in Inr (n_true, n_pred))))"

text \<open>
  \<^verbatim>\<open>LossWrapper.__call__\<close>: the loop over the zipped lists, the running total as an
  argument, and the call starting it at \<open>0.0\<close>.
\<close>

fun call_loop ::
  "((tensor4 \<Rightarrow> tensor4 \<Rightarrow> real) \<times> real \<times> int) list \<Rightarrow> tensor4 \<Rightarrow> tensor4 \<Rightarrow> real \<Rightarrow> error + real"
  where
  "call_loop [] y_true y_pred loss = Inr loss"
| "call_loop ((func, weight, mask_channel) # rest) y_true y_pred loss =
     (case apply_mask y_true y_pred mask_channel 1.0 of
        Inl e \<Rightarrow> Inl e
      | Inr (n_true, n_pred) \<Rightarrow>
          call_loop rest y_true y_pred (loss + func n_true n_pred * weight))"

definition LossWrapper_call :: "LossWrapper \<Rightarrow> tensor4 \<Rightarrow> tensor4 \<Rightarrow> error + real" where
  "LossWrapper_call self y_true y_pred =
     call_loop (zip (loss_functions self) (zip (loss_weights self) (mask_channels self)))
       y_true y_pred 0.0"

section \<open>Structural similarity: the computation of the tensor library\<close>

text \<open>
  Modelled from the spec: \<^verbatim>\<open>tf.image.ssim\<close> and \<^verbatim>\<open>tf.image.ssim_multiscale\<close>, which the
  two structural similarity losses call and which are not part of this file. The
  specification describes the first as ``the standard windowed-statistics similarity
  index between true and predicted images using a Gaussian window of configurable
  size/sigma and stability constants k1, k2 relative to a declared dynamic range'', based
  on ``local luminance, contrast, and structure statistics over sliding windows'', and the
  second as that computation ``at a sequence of progressively 2x-downsampled resolutions,
  weighted by a fixed tuple of power factors'' and combined by ``the standard multiscale
  aggregation rule''. The definitions below spell these words out, one channel at a time.
\<close>

text \<open>
  Modelled from the spec: the Gaussian window of size \<open>f\<close> and width \<open>sigma\<close>, centred on
  the window and normalised to sum 1, as the row-major list of its \<open>f * f\<close> weights.
\<close>

definition gauss :: "nat \<Rightarrow> real \<Rightarrow> nat \<Rightarrow> real" where
  "gauss f sigma i = exp (- ((real i - (real f - 1) / 2)\<^sup>2) / (2 * sigma\<^sup>2))"

definition gauss_window :: "nat \<Rightarrow> real \<Rightarrow> real list" where
  "gauss_window f sigma =
     (let g = concat (map (\<lambda>i. map (\<lambda>j. gauss f sigma i * gauss f sigma j) [0..<f]) [0..<f])
      in map (\<lambda>v. v / sum_list g) g)"

text \<open>
  Modelled from the spec: the sliding windows of one channel \<open>x\<close> (height by width). The
  window at row \<open>i\<close> and column \<open>j\<close> is the \<open>f\<close> by \<open>f\<close> block starting there, row-major;
  the windows are those that lie inside the image.
\<close>

definition patch :: "nat \<Rightarrow> tensor2 \<Rightarrow> nat \<Rightarrow> nat \<Rightarrow> real list" where
  "patch f x i j = concat (map (\<lambda>row. take f (drop j row)) (take f (drop i x)))"

definition windows :: "nat \<Rightarrow> tensor2 \<Rightarrow> (nat \<times> nat) list" where
  "windows f x =
     concat (map (\<lambda>i. map (\<lambda>j. (i, j)) [0..<axis1 x + 1 - f]) [0..<length x + 1 - f])"

text \<open>
  Modelled from the spec: the windowed statistics, the weighted mean of a window and the
  weighted covariance of two windows (the variance when both are the same).
\<close>

definition wmean :: "real list \<Rightarrow> real list \<Rightarrow> real" where
  "wmean w xs = sum_list (map2 (*) w xs)"

definition wcov :: "real list \<Rightarrow> real list \<Rightarrow> real list \<Rightarrow> real" where
  "wcov w xs ys = wmean w (map2 (\<lambda>x y. (x - wmean w xs) * (y - wmean w ys)) xs ys)"

text \<open>
  Modelled from the spec: the two factors of the index on one window, luminance and
  contrast with structure, with the stability constants \<open>c1\<close> and \<open>c2\<close>.
\<close>

definition luminance :: "real \<Rightarrow> real list \<Rightarrow> real list \<Rightarrow> real list \<Rightarrow> real" where
  "luminance c1 w xs ys =
     (2 * wmean w xs * wmean w ys + c1) / ((wmean w xs)\<^sup>2 + (wmean w ys)\<^sup>2 + c1)"

definition contrast_structure :: "real \<Rightarrow> real list \<Rightarrow> real list \<Rightarrow> real list \<Rightarrow> real" where
  "contrast_structure c2 w xs ys = (2 * wcov w xs ys + c2) / (wcov w xs xs + wcov w ys ys + c2)"

text \<open>
  Modelled from the spec: the index of one channel, the mean over all windows of the
  product of the two factors, and the same mean of the second factor alone, which the
  multiscale rule uses at all scales but the coarsest. An image smaller than the window
  has no window; the library rejects it.
\<close>

definition cs_plane :: "nat \<Rightarrow> real \<Rightarrow> real \<Rightarrow> tensor2 \<Rightarrow> tensor2 \<Rightarrow> real" where
  "cs_plane f sigma c2 x y =
     K_mean (map (\<lambda>(i, j). contrast_structure c2 (gauss_window f sigma)
                              (patch f x i j) (patch f y i j)) (windows f x))"

definition ssim_plane :: "nat \<Rightarrow> real \<Rightarrow> real \<Rightarrow> real \<Rightarrow> tensor2 \<Rightarrow> tensor2 \<Rightarrow> real" where
  "ssim_plane f sigma c1 c2 x y =
     K_mean (map (\<lambda>(i, j). luminance c1 (gauss_window f sigma) (patch f x i j) (patch f y i j) *
                            contrast_structure c2 (gauss_window f sigma)
                              (patch f x i j) (patch f y i j)) (windows f x))"

text \<open>
  Modelled from the spec: channel \<open>c\<close> of one sample, and the number of channels of a
  sample, read off its first pixel.
\<close>

definition plane :: "tensor3 \<Rightarrow> nat \<Rightarrow> tensor2" where
  "plane s c = map (map (\<lambda>px. px ! c)) s"

definition n_channels :: "tensor3 \<Rightarrow> nat" where
  "n_channels s = (case concat s of [] \<Rightarrow> 0 | px # _ \<Rightarrow> length px)"

text \<open>
  Modelled from the spec: \<^verbatim>\<open>tf.image.ssim\<close>. One value per sample, the mean over the
  channels of the index; the stability constants are \<open>(k1 * max_val)\<^sup>2\<close> and
  \<open>(k2 * max_val)\<^sup>2\<close>.
\<close>

definition ssim :: ssim_fn where
  "ssim img1 img2 max_val fs sigma k1 k2 =
     map2 (\<lambda>s t. K_mean (map (\<lambda>c. ssim_plane (nat fs) sigma ((k1 * max_val)\<^sup>2) ((k2 * max_val)\<^sup>2)
                                    (plane s c) (plane t c)) [0..<n_channels s]))
          img1 img2"

text \<open>
  Modelled from the spec: one 2x downsampling of a channel, the mean of each 2 by 2 block;
  height and width are halved by integer division, as
  \<^verbatim>\<open>MSSSIMLoss._get_smallest_size\<close> counts them.
\<close>

definition downsample :: "tensor2 \<Rightarrow> tensor2" where
  "downsample x =
     map (\<lambda>i. map (\<lambda>j. (x ! (2 * i) ! (2 * j) + x ! (2 * i) ! (2 * j + 1) +
                        x ! (2 * i + 1) ! (2 * j) + x ! (2 * i + 1) ! (2 * j + 1)) / 4)
                [0..<axis1 x div 2])
         [0..<length x div 2]"

text \<open>
  Modelled from the spec: the multiscale aggregation rule on one channel. Each scale but
  the last contributes its contrast-structure mean, the last its whole index, each
  clipped at 0 and raised to the power factor of its scale; the result is their product.
  The empty sequence of power factors, which is not a valid configuration, gives the
  empty product.
\<close>

fun msssim_plane ::
  "nat \<Rightarrow> real \<Rightarrow> real \<Rightarrow> real \<Rightarrow> real list \<Rightarrow> tensor2 \<Rightarrow> tensor2 \<Rightarrow> real" where
  "msssim_plane f sigma c1 c2 [] x y = 1"
| "msssim_plane f sigma c1 c2 [p] x y = K_pow (max 0 (ssim_plane f sigma c1 c2 x y)) p"
| "msssim_plane f sigma c1 c2 (p # q # ps) x y =
     K_pow (max 0 (cs_plane f sigma c2 x y)) p *
     msssim_plane f sigma c1 c2 (q # ps) (downsample x) (downsample y)"

text \<open>
  Modelled from the spec: \<^verbatim>\<open>tf.image.ssim_multiscale\<close>. One value per sample, the mean
  over the channels of the multiscale index.
\<close>

definition ssim_multiscale :: ssim_multiscale_fn where
  "ssim_multiscale img1 img2 max_val pf fs sigma k1 k2 =
     map2 (\<lambda>s t. K_mean (map (\<lambda>c. msssim_plane (nat fs) sigma ((k1 * max_val)\<^sup>2)
                                    ((k2 * max_val)\<^sup>2) pf (plane s c) (plane t c))
                              [0..<n_channels s]))
          img1 img2"

section \<open>Specification-side definitions and per-sample forms\<close>

text \<open>The length of a slice, as a function of the length of the list.\<close>

definition slen :: "int option \<Rightarrow> int option \<Rightarrow> nat \<Rightarrow> nat" where
  "slen lo hi m =
     (let n = int m;
          norm = (\<lambda>i. if i < 0 then max 0 (n + i) else min n i);
          l = (case lo of None \<Rightarrow> 0 | Some i \<Rightarrow> norm i);
          h = (case hi of None \<Rightarrow> n | Some i \<Rightarrow> norm i)
      in nat (h - l))"

text \<open>
  The tensor that \<^verbatim>\<open>_diff_xy\<close> binds to both \<^verbatim>\<open>xy_out1\<close> and \<^verbatim>\<open>xy_out2\<close>, for one
  sample, and the row of \<^verbatim>\<open>_diff_x\<close>, for one image row.
\<close>

definition xy_sample :: "real list list list \<Rightarrow> real list list list" where
  "xy_sample s =
     map2 (@)
       (map2 (map2 (map2 (+))) (map (py_slice (Some 1) (Some 2)) (py_slice (Some 0) (Some 1) s))
                               (map (py_slice (Some 0) (Some 1)) (py_slice (Some 1) (Some 2) s))
        @ map2 (map2 (map2 (+))) (map (py_slice (Some 1) (Some 2)) (py_slice None (Some (- 2)) s))
                                 (map (py_slice (Some 0) (Some 1)) (py_slice (Some 2) None s))
        @ map2 (map2 (map2 (+))) (map (py_slice (Some 1) (Some 2)) (py_slice (Some (- 2)) (Some (- 1)) s))
                                 (map (py_slice (Some 0) (Some 1)) (py_slice (Some (- 1)) None s)))
       (map2 (@)
         (map2 (map2 (map2 (+))) (map (py_slice (Some 2) None) (py_slice (Some 0) (Some 1) s))
                                 (map (py_slice None (Some (- 2))) (py_slice (Some 1) (Some 2) s))
          @ map2 (map2 (map2 (+))) (map (py_slice (Some 2) None) (py_slice None (Some (- 2)) s))
                                   (map (py_slice None (Some (- 2))) (py_slice (Some 2) None s))
          @ map2 (map2 (map2 (+))) (map (py_slice (Some 2) None) (py_slice (Some (- 2)) (Some (- 1)) s))
                                   (map (py_slice None (Some (- 2))) (py_slice (Some (- 1)) None s)))
         (map2 (map2 (map2 (+))) (map (py_slice (Some (- 1)) None) (py_slice (Some 0) (Some 1) s))
                                 (map (py_slice (Some (- 2)) (Some (- 1))) (py_slice (Some 1) (Some 2) s))
          @ map2 (map2 (map2 (+))) (map (py_slice (Some (- 1)) None) (py_slice None (Some (- 2)) s))
                                   (map (py_slice (Some (- 2)) (Some (- 1))) (py_slice (Some 2) None s))
          @ map2 (map2 (map2 (+))) (map (py_slice (Some (- 1)) None) (py_slice (Some (- 2)) (Some (- 1)) s))
                                   (map (py_slice (Some (- 2)) (Some (- 1))) (py_slice (Some (- 1)) None s))))"

definition x_row :: "real list list \<Rightarrow> real list list" where
  "x_row r = map (map (\<lambda>v. v * 0.5))
     (map2 (map2 (-)) (py_slice (Some 1) (Some 2) r) (py_slice (Some 0) (Some 1) r)
      @ map2 (map2 (-)) (py_slice (Some 2) None r) (py_slice None (Some (- 2)) r)
      @ map2 (map2 (-)) (py_slice (Some (- 1)) None r) (py_slice (Some (- 2)) (Some (- 1)) r))"

text \<open>
  The formula of the specification for the generalized loss: the loss of one entry
  whose error is \<open>e\<close>, and the reduction the specification words ask for, the mean
  over all non-batch axes times \<open>beta\<close>, one value per sample.
\<close>

definition loss_elem :: "real \<Rightarrow> real \<Rightarrow> real \<Rightarrow> real" where
  "loss_elem a b e = (let d = e / b in (\<bar>2 - a\<bar> / a) * ((d\<^sup>2 / \<bar>2 - a\<bar> + 1) powr (a / 2) - 1))"

definition GeneralizedLoss_spec :: "real \<Rightarrow> real \<Rightarrow> tensor4 \<Rightarrow> tensor4 \<Rightarrow> real list" where
  "GeneralizedLoss_spec a b y_true y_pred =
     map2 (\<lambda>t p. b * K_mean (map (loss_elem a b) (concat (concat (map2 (map2 (map2 (-))) p t)))))
       y_true y_pred"

text \<open>
  The wrapper after registering the given (function, weight) pairs in order, each
  with the default mask channel \<open>-1\<close>.
\<close>

definition register_all :: "((tensor4 \<Rightarrow> tensor4 \<Rightarrow> real) \<times> real) list \<Rightarrow> LossWrapper" where
  "register_all regs = foldl (\<lambda>w (f, wt). add_loss f wt (- 1) w) LossWrapper_init regs"

text \<open>
  The contract of the specification for the L-infinity loss on one sample: the mean
  over the channels of the maximum, over all pixel positions, of the absolute error.
\<close>

definition LInfNorm_spec :: "nat \<Rightarrow> nat \<Rightarrow> nat \<Rightarrow> tensor3 \<Rightarrow> tensor3 \<Rightarrow> real" where
  "LInfNorm_spec H W C t p =
     K_mean (map (\<lambda>c. Max (set [\<bar>t ! i ! j ! c - p ! i ! j ! c\<bar>. i \<leftarrow> [0..<H], j \<leftarrow> [0..<W]]))
               [0..<C])"

text \<open>A tensor all of whose entries are 0, whatever its shape.\<close>

definition all_zero :: "tensor4 \<Rightarrow> bool" where
  "all_zero t = list_all (list_all (list_all (list_all (\<lambda>v. v = 0)))) t"









section \<open>Lists, slices and shapes\<close>

lemma map2_map_map: "map2 f (map g xs) (map h xs) = map (\<lambda>x. f (g x) (h x)) xs"
  by (induction xs) simp_all

lemma map2_same: "map2 f xs xs = map (\<lambda>x. f x x) xs"
  by (induction xs) simp_all

lemma py_slice_all [simp]: "py_slice None None xs = xs"
  by (simp add: py_slice_def)

lemma length_py_slice: "length (py_slice lo hi xs) = slen lo hi (length xs)"
  by (auto simp: py_slice_def slen_def Let_def split: option.splits)

lemma set_py_slice: "set (py_slice lo hi xs) \<subseteq> set xs"
  unfolding py_slice_def Let_def
  by (meson set_take_subset set_drop_subset subset_trans)

lemma list_all_py_slice: "list_all P xs \<Longrightarrow> list_all P (py_slice lo hi xs)"
  using set_py_slice[of lo hi xs] by (auto simp: list_all_iff)

lemma slen_simps:
  "slen None None n = n"
  "2 \<le> n \<Longrightarrow> slen (Some 0) (Some 1) n = 1"
  "2 \<le> n \<Longrightarrow> slen (Some 1) (Some 2) n = 1"
  "2 \<le> n \<Longrightarrow> slen (Some 2) None n = n - 2"
  "2 \<le> n \<Longrightarrow> slen None (Some (- 2)) n = n - 2"
  "2 \<le> n \<Longrightarrow> slen (Some (- 1)) None n = 1"
  "2 \<le> n \<Longrightarrow> slen (Some (- 2)) (Some (- 1)) n = 1"
  by (auto simp: slen_def Let_def)

lemma py_slice_2:
  assumes "2 \<le> length xs"
  shows "py_slice (Some 0) (Some 1) xs = [xs ! 0]"
    and "py_slice (Some 1) (Some 2) xs = [xs ! 1]"
    and "py_slice (Some 2) None xs = drop 2 xs"
    and "py_slice None (Some (- 2)) xs = take (length xs - 2) xs"
    and "py_slice (Some (- 1)) None xs = [xs ! (length xs - 1)]"
    and "py_slice (Some (- 2)) (Some (- 1)) xs = [xs ! (length xs - 2)]"
proof -
  show "py_slice (Some 0) (Some 1) xs = [xs ! 0]"
    using assms by (cases xs) (simp_all add: py_slice_def)
  show "py_slice (Some 1) (Some 2) xs = [xs ! 1]"
    using assms by (cases xs; cases "tl xs") (simp_all add: py_slice_def)
  show "py_slice (Some 2) None xs = drop 2 xs"
    using assms by (simp add: py_slice_def Let_def)
  show "py_slice None (Some (- 2)) xs = take (length xs - 2) xs"
    using assms by (simp add: py_slice_def Let_def nat_diff_distrib')
  have d: "\<And>k. k < length xs \<Longrightarrow> take 1 (drop k xs) = [xs ! k]"
    by (metis Cons_nth_drop_Suc One_nat_def take0 take_Suc_Cons)
  show "py_slice (Some (- 1)) None xs = [xs ! (length xs - 1)]"
    using assms d[of "length xs - 1"] by (simp add: py_slice_def Let_def nat_diff_distrib')
  show "py_slice (Some (- 2)) (Some (- 1)) xs = [xs ! (length xs - 2)]"
    using assms d[of "length xs - 2"] by (simp add: py_slice_def Let_def nat_diff_distrib')
qed

lemma shaped2_map2:
  "shaped2 w c x \<Longrightarrow> shaped2 w c y \<Longrightarrow> shaped2 w c (map2 (map2 f) x y)"
  by (auto simp: shaped2_def list_all_length)

lemma shaped3_map2:
  "shaped3 h w c x \<Longrightarrow> shaped3 h w c y \<Longrightarrow> shaped3 h w c (map2 (map2 (map2 f)) x y)"
  by (auto simp: shaped3_def list_all_length intro: shaped2_map2)

lemma shaped3_append:
  "shaped3 h1 w c x \<Longrightarrow> shaped3 h2 w c y \<Longrightarrow> shaped3 (h1 + h2) w c (x @ y)"
  by (auto simp: shaped3_def)

lemma shaped2_append:
  "shaped2 w1 c x \<Longrightarrow> shaped2 w2 c y \<Longrightarrow> shaped2 (w1 + w2) c (x @ y)"
  by (auto simp: shaped2_def)

lemma shaped3_map2_append:
  "shaped3 h w1 c x \<Longrightarrow> shaped3 h w2 c y \<Longrightarrow> shaped3 h (w1 + w2) c (map2 (@) x y)"
  by (auto simp: shaped3_def list_all_length intro: shaped2_append)

lemma shaped2_py_slice:
  "shaped2 w c r \<Longrightarrow> shaped2 (slen lo hi w) c (py_slice lo hi r)"
  by (simp add: shaped2_def length_py_slice list_all_py_slice)

lemma shaped3_slice:
  "shaped3 h w c s \<Longrightarrow>
   shaped3 (slen (fst a) (snd a) h) (slen (fst b) (snd b) w) c
     (map (py_slice (fst b) (snd b)) (py_slice (fst a) (snd a) s))"
  unfolding shaped3_def
  by (auto simp: length_py_slice list_all_iff intro: shaped2_py_slice
      dest: subsetD[OF set_py_slice])

lemma shaped2_map: "shaped2 w c r \<Longrightarrow> shaped2 w c (map (map f) r)"
  by (auto simp: shaped2_def list_all_iff)

lemma shaped3_map: "shaped3 h w c s \<Longrightarrow> shaped3 h w c (map (map (map f)) s)"
  by (auto simp: shaped3_def list_all_iff intro: shaped2_map)

lemma shaped4_map: "(\<And>s. shaped3 h w c s \<Longrightarrow> shaped3 h' w' c' (F s)) \<Longrightarrow>
   shaped4 b h w c t \<Longrightarrow> shaped4 b h' w' c' (map F t)"
  by (auto simp: shaped4_def list_all_iff)

lemma tzip_slices:
  "tzip f (img_slice a b img) (img_slice a' b' img) =
     map (\<lambda>s. map2 (map2 (map2 f))
                 (map (py_slice (fst b) (snd b)) (py_slice (fst a) (snd a) s))
                 (map (py_slice (fst b') (snd b')) (py_slice (fst a') (snd a') s))) img"
  by (simp add: tzip_def img_slice_def map2_map_map)

lemma concatenate1_3_map:
  "concatenate1 [map f img, map g img, map h img] = map (\<lambda>s. f s @ g s @ h s) img"
  by (simp add: map2_map_map)

lemma concatenate2_3_map:
  "concatenate2 [map f img, map g img, map h img] =
     map (\<lambda>s. map2 (@) (f s) (map2 (@) (g s) (h s))) img"
  by (simp add: map2_map_map)

lemma tzip_map_map:
  "tzip f (map g img) (map h img) = map (\<lambda>s. map2 (map2 (map2 f)) (g s) (h s)) img"
  by (simp add: tzip_def map2_map_map)

lemma tmap_map: "tmap f (map g img) = map (\<lambda>s. map (map (map f)) (g s)) img"
  by (simp add: tmap_def)

lemma map2_3_same: "map2 (map2 (map2 (\<lambda>x y. x - y))) s s = map (map (map (\<lambda>x. 0::real))) s"
  by (simp add: map2_same)

lemma map_const_replicate: "(\<And>x. x \<in> set xs \<Longrightarrow> f x = v) \<Longrightarrow> map f xs = replicate (length xs) v"
  by (induction xs) simp_all

lemma shaped2_const: "shaped2 w c r \<Longrightarrow> map (map (\<lambda>_. v)) r = replicate w (replicate c v)"
  unfolding shaped2_def list_all_iff
  using map_const_replicate[of r "map (\<lambda>_. v)" "replicate c v"]
  by (auto simp: map_replicate_const)

lemma shaped3_const:
  "shaped3 h w c s \<Longrightarrow> map (map (map (\<lambda>_. v))) s = replicate h (replicate w (replicate c v))"
  unfolding shaped3_def list_all_iff
  using map_const_replicate[of s "map (map (\<lambda>_. v))" "replicate w (replicate c v)"]
  by (auto simp: shaped2_const)

lemma shaped2_nth: "shaped2 W C r \<Longrightarrow> k < W \<Longrightarrow> length (r ! k) = C"
  by (auto simp: shaped2_def list_all_length)

lemma shaped2_length: "shaped2 W C r \<Longrightarrow> length r = W"
  by (simp add: shaped2_def)

lemma map2_nth_range:
  "length xs = n \<Longrightarrow> length ys = n \<Longrightarrow> map2 f xs ys = map (\<lambda>c. f (xs ! c) (ys ! c)) [0..<n]"
  by (auto intro!: nth_equalityI)

lemma shaped3_nth: "shaped3 H W C s \<Longrightarrow> i < H \<Longrightarrow> shaped2 W C (s ! i)"
  by (auto simp: shaped3_def list_all_length)
lemma shaped3_length: "shaped3 H W C s \<Longrightarrow> length s = H"
  by (simp add: shaped3_def)
lemma shaped4_nth: "shaped4 B H W C t \<Longrightarrow> b < B \<Longrightarrow> shaped3 H W C (t ! b)"
  by (auto simp: shaped4_def list_all_length)
lemma shaped4_length: "shaped4 B H W C t \<Longrightarrow> length t = B"
  by (simp add: shaped4_def)

lemma shaped4_const3:
  assumes t: "shaped4 B H W C t"
  shows "map (map (map (\<lambda>_. v))) t = replicate B (replicate H (replicate W v))"
proof -
  have "map (map (map (\<lambda>_. v))) t = replicate (length t) (replicate H (replicate W v))"
  proof (rule map_const_replicate)
    fix s assume "s \<in> set t"
    with t have s3: "shaped3 H W C s" by (auto simp: shaped4_def list_all_iff)
    have "map (map (\<lambda>_. v)) s = replicate (length s) (replicate W v)"
    proof (rule map_const_replicate)
      fix r assume "r \<in> set s"
      with s3 have "length r = W" by (auto simp: shaped3_def shaped2_def list_all_iff)
      then show "map (\<lambda>_. v) r = replicate W v" by (simp add: map_replicate_const)
    qed
    then show "map (map (\<lambda>_. v)) s = replicate H (replicate W v)"
      using shaped3_length[OF s3] by simp
  qed
  then show ?thesis using shaped4_length[OF t] by simp
qed

lemma tzip_nth:
  assumes "shaped4 B H W C x" "shaped4 B H W C y" "b < B" "i < H" "j < W"
  shows "tzip f x y ! b ! i ! j = map2 f (x ! b ! i ! j) (y ! b ! i ! j)"
proof -
  note x3 = shaped4_nth[OF assms(1,3)] and y3 = shaped4_nth[OF assms(2,3)]
  note x2 = shaped3_nth[OF x3 assms(4)] and y2 = shaped3_nth[OF y3 assms(4)]
  show ?thesis
    using assms(3-5) shaped4_length[OF assms(1)] shaped4_length[OF assms(2)]
      shaped3_length[OF x3] shaped3_length[OF y3] shaped2_length[OF x2] shaped2_length[OF y2]
    by (simp add: tzip_def)
qed

lemma tzip_lengths:
  assumes "shaped4 B H W C x" "shaped4 B H W C y"
  shows "length (tzip f x y) = B"
    and "b < B \<Longrightarrow> length (tzip f x y ! b) = H"
    and "b < B \<Longrightarrow> i < H \<Longrightarrow> length (tzip f x y ! b ! i) = W"
proof -
  show "length (tzip f x y) = B"
    using shaped4_length[OF assms(1)] shaped4_length[OF assms(2)] by (simp add: tzip_def)
  show "length (tzip f x y ! b) = H" if b: "b < B"
    using b shaped4_length[OF assms(1)] shaped4_length[OF assms(2)]
      shaped3_length[OF shaped4_nth[OF assms(1) b]] shaped3_length[OF shaped4_nth[OF assms(2) b]]
    by (simp add: tzip_def)
  show "length (tzip f x y ! b ! i) = W" if b: "b < B" and i: "i < H"
    using b i shaped4_length[OF assms(1)] shaped4_length[OF assms(2)]
      shaped3_length[OF shaped4_nth[OF assms(1) b]] shaped3_length[OF shaped4_nth[OF assms(2) b]]
      shaped2_length[OF shaped3_nth[OF shaped4_nth[OF assms(1) b] i]]
      shaped2_length[OF shaped3_nth[OF shaped4_nth[OF assms(2) b] i]]
    by (simp add: tzip_def)
qed

section \<open>The cross term of the gradient loss\<close>

lemma diff_xy_sample:
  "diff_xy img = map (\<lambda>s. map (map (map (\<lambda>v. v * 0.25)))
                        (map2 (map2 (map2 (-))) (xy_sample s) (xy_sample s))) img"
  unfolding diff_xy_def Let_def tadd_def tsub_def tzip_slices concatenate1_3_map
    concatenate2_3_map tzip_map_map tmap_map xy_sample_def
  by simp

lemma diff_xy_zeros: "diff_xy img = map (\<lambda>s. map (map (map (\<lambda>_. 0))) (xy_sample s)) img"
  unfolding diff_xy_sample by (simp add: map2_same comp_def)

lemma sl_shape:
  "shaped3 H W C s \<Longrightarrow> slen lo hi H = h \<Longrightarrow> slen lo' hi' W = w \<Longrightarrow>
   shaped3 h w C (map (py_slice lo' hi') (py_slice lo hi s))"
  using shaped3_slice[of H W C s "(lo, hi)" "(lo', hi')"] by auto

lemma xy_sample_shape:
  assumes s: "shaped3 H W C s" and H: "2 \<le> H" and W: "2 \<le> W"
  shows "shaped3 H W C (xy_sample s)"
proof -
  note sl = sl_shape[OF s]
  note ss = slen_simps(2-7)[OF H] slen_simps(2-7)[OF W]
  let ?add = "map2 (map2 (map2 ((+) :: real \<Rightarrow> real \<Rightarrow> real)))"
  have tl: "shaped3 1 1 C (?add (map (py_slice (Some 1) (Some 2)) (py_slice (Some 0) (Some 1) s))
                               (map (py_slice (Some 0) (Some 1)) (py_slice (Some 1) (Some 2) s)))"
    by (rule shaped3_map2; rule sl; simp add: ss)
  have il: "shaped3 (H - 2) 1 C
      (?add (map (py_slice (Some 1) (Some 2)) (py_slice None (Some (- 2)) s))
            (map (py_slice (Some 0) (Some 1)) (py_slice (Some 2) None s)))"
    by (rule shaped3_map2; rule sl; simp add: ss)
  have bl: "shaped3 1 1 C
      (?add (map (py_slice (Some 1) (Some 2)) (py_slice (Some (- 2)) (Some (- 1)) s))
            (map (py_slice (Some 0) (Some 1)) (py_slice (Some (- 1)) None s)))"
    by (rule shaped3_map2; rule sl; simp add: ss)
  have tm: "shaped3 1 (W - 2) C
      (?add (map (py_slice (Some 2) None) (py_slice (Some 0) (Some 1) s))
            (map (py_slice None (Some (- 2))) (py_slice (Some 1) (Some 2) s)))"
    by (rule shaped3_map2; rule sl; simp add: ss)
  have mm: "shaped3 (H - 2) (W - 2) C
      (?add (map (py_slice (Some 2) None) (py_slice None (Some (- 2)) s))
            (map (py_slice None (Some (- 2))) (py_slice (Some 2) None s)))"
    by (rule shaped3_map2; rule sl; simp add: ss)
  have bm: "shaped3 1 (W - 2) C
      (?add (map (py_slice (Some 2) None) (py_slice (Some (- 2)) (Some (- 1)) s))
            (map (py_slice None (Some (- 2))) (py_slice (Some (- 1)) None s)))"
    by (rule shaped3_map2; rule sl; simp add: ss)
  have tr: "shaped3 1 1 C
      (?add (map (py_slice (Some (- 1)) None) (py_slice (Some 0) (Some 1) s))
            (map (py_slice (Some (- 2)) (Some (- 1))) (py_slice (Some 1) (Some 2) s)))"
    by (rule shaped3_map2; rule sl; simp add: ss)
  have ir: "shaped3 (H - 2) 1 C
      (?add (map (py_slice (Some (- 1)) None) (py_slice None (Some (- 2)) s))
            (map (py_slice (Some (- 2)) (Some (- 1))) (py_slice (Some 2) None s)))"
    by (rule shaped3_map2; rule sl; simp add: ss)
  have br: "shaped3 1 1 C
      (?add (map (py_slice (Some (- 1)) None) (py_slice (Some (- 2)) (Some (- 1)) s))
            (map (py_slice (Some (- 2)) (Some (- 1))) (py_slice (Some (- 1)) None s)))"
    by (rule shaped3_map2; rule sl; simp add: ss)
  have hh: "1 + ((H - 2) + 1) = H" and ww: "1 + ((W - 2) + 1) = W"
    using H W by simp_all
  have left: "shaped3 H 1 C (?add (map (py_slice (Some 1) (Some 2)) (py_slice (Some 0) (Some 1) s))
                               (map (py_slice (Some 0) (Some 1)) (py_slice (Some 1) (Some 2) s))
      @ ?add (map (py_slice (Some 1) (Some 2)) (py_slice None (Some (- 2)) s))
            (map (py_slice (Some 0) (Some 1)) (py_slice (Some 2) None s))
      @ ?add (map (py_slice (Some 1) (Some 2)) (py_slice (Some (- 2)) (Some (- 1)) s))
            (map (py_slice (Some 0) (Some 1)) (py_slice (Some (- 1)) None s)))"
    using shaped3_append[OF tl shaped3_append[OF il bl]] by (simp only: hh)
  have mid: "shaped3 H (W - 2) C (?add (map (py_slice (Some 2) None) (py_slice (Some 0) (Some 1) s))
            (map (py_slice None (Some (- 2))) (py_slice (Some 1) (Some 2) s))
      @ ?add (map (py_slice (Some 2) None) (py_slice None (Some (- 2)) s))
            (map (py_slice None (Some (- 2))) (py_slice (Some 2) None s))
      @ ?add (map (py_slice (Some 2) None) (py_slice (Some (- 2)) (Some (- 1)) s))
            (map (py_slice None (Some (- 2))) (py_slice (Some (- 1)) None s)))"
    using shaped3_append[OF tm shaped3_append[OF mm bm]] by (simp only: hh)
  have right: "shaped3 H 1 C (?add (map (py_slice (Some (- 1)) None) (py_slice (Some 0) (Some 1) s))
            (map (py_slice (Some (- 2)) (Some (- 1))) (py_slice (Some 1) (Some 2) s))
      @ ?add (map (py_slice (Some (- 1)) None) (py_slice None (Some (- 2)) s))
            (map (py_slice (Some (- 2)) (Some (- 1))) (py_slice (Some 2) None s))
      @ ?add (map (py_slice (Some (- 1)) None) (py_slice (Some (- 2)) (Some (- 1)) s))
            (map (py_slice (Some (- 2)) (Some (- 1))) (py_slice (Some (- 1)) None s)))"
    using shaped3_append[OF tr shaped3_append[OF ir br]] by (simp only: hh)
  show ?thesis
    unfolding xy_sample_def
    using shaped3_map2_append[OF left shaped3_map2_append[OF mid right]]
    by (simp only: ww)
qed

text \<open>
  Claim C1. For an image tensor of shape \<open>(B, H, W, C)\<close> with at least two rows and two
  columns, \<^verbatim>\<open>GradientLoss._diff_xy\<close> returns the all-zero tensor of the same shape:
  \<^verbatim>\<open>xy_out1\<close> and \<^verbatim>\<open>xy_out2\<close> are the same concatenation, and their difference is taken.
\<close>

theorem diff_xy_all_zero:
  assumes "shaped4 B H W C img" and "2 \<le> H" and "2 \<le> W"
  shows "diff_xy img = full4 B H W C 0"
proof -
  have "map (\<lambda>s. map (map (map (\<lambda>_. 0::real))) (xy_sample s)) img
        = replicate (length img) (replicate H (replicate W (replicate C 0)))"
  proof (rule map_const_replicate)
    fix s assume "s \<in> set img"
    with assms(1) have "shaped3 H W C s" by (auto simp: shaped4_def list_all_iff)
    from xy_sample_shape[OF this assms(2,3)]
    show "map (map (map (\<lambda>_. 0::real))) (xy_sample s) = replicate H (replicate W (replicate C 0))"
      by (rule shaped3_const)
  qed
  with assms(1) show ?thesis
    by (simp add: diff_xy_zeros full4_def shaped4_def)
qed

theorem diff_xy_all_zero_witness:
  "shaped4 1 2 2 1 [[[[1], [2]], [[3], [4::real]]]] \<and>
   diff_xy [[[[1], [2]], [[3], [4]]]] = full4 1 2 2 1 0"
proof -
  have h: "shaped4 1 2 2 1 [[[[1], [2]], [[3], [4::real]]]]"
    by (simp add: shaped4_def shaped3_def shaped2_def)
  have "diff_xy [[[[1], [2]], [[3], [4]]]] = full4 1 2 2 1 0"
    by (rule diff_xy_all_zero[OF h]) simp_all
  with h show ?thesis by simp
qed

text \<open>
  Below two rows or two columns the slices of \<^verbatim>\<open>_diff_xy\<close> are empty and so is the
  axis of the result: a single row leaves no row.
\<close>

lemma diff_xy_single_row: "diff_xy [[[[1], [2], [3]]]] = [[]]"
  by (simp add: diff_xy_zeros xy_sample_def py_slice_def)

section \<open>The first-order difference along the width\<close>

lemma diff_x_rows: "diff_x img = map (map x_row) img"
  unfolding diff_x_def Let_def tsub_def tzip_slices concatenate2_3_map tmap_map x_row_def
  by (simp add: map2_map_map)

lemma x_row_explicit:
  assumes "2 \<le> length r"
  shows "x_row r = map (map (\<lambda>v. v * 0.5))
     ([map2 (-) (r ! 1) (r ! 0)]
      @ map2 (map2 (-)) (drop 2 r) (take (length r - 2) r)
      @ [map2 (-) (r ! (length r - 1)) (r ! (length r - 2))])"
  unfolding x_row_def by (simp add: py_slice_2[OF assms])

lemma x_row_length: "2 \<le> length r \<Longrightarrow> length (x_row r) = length r"
  by (simp add: x_row_explicit)

lemma x_row_mid:
  assumes "length r = W" "0 < j" "j < W - 1"
  shows "x_row r ! j = map (\<lambda>v. v * 0.5) (map2 (-) (r ! (j + 1)) (r ! (j - 1)))"
proof -
  let ?mid = "map2 (map2 (-)) (drop 2 r) (take (length r - 2) r)"
  let ?a = "map2 (-) (r ! 1) (r ! 0)"
  let ?z = "map2 (-) (r ! (length r - 1)) (r ! (length r - 2))"
  have W: "2 \<le> length r" using assms by simp
  have lm: "length ?mid = W - 2" using assms by simp
  have j1: "j - 1 < W - 2" using assms by simp
  have "([?a] @ ?mid @ [?z]) ! j = (?mid @ [?z]) ! (j - 1)"
    using assms(2) by (simp add: nth_Cons')
  also have "\<dots> = ?mid ! (j - 1)"
    using j1 lm by (simp add: nth_append)
  also have "\<dots> = map2 (-) (drop 2 r ! (j - 1)) (take (length r - 2) r ! (j - 1))"
    using j1 assms(1) by simp
  also have "drop 2 r ! (j - 1) = r ! (j + 1)"
    using assms by simp
  also have "take (length r - 2) r ! (j - 1) = r ! (j - 1)"
    using j1 assms(1) by simp
  finally have "([?a] @ ?mid @ [?z]) ! j = map2 (-) (r ! (j + 1)) (r ! (j - 1))" .
  moreover have "j < length ([?a] @ ?mid @ [?z])" using assms by simp
  ultimately show ?thesis
    unfolding x_row_explicit[OF W] by (simp only: nth_map)
qed

lemma x_row_end:
  assumes "length r = W" "2 \<le> W"
  shows "x_row r ! (W - 1) = map (\<lambda>v. v * 0.5) (map2 (-) (r ! (W - 1)) (r ! (W - 2)))"
proof -
  let ?mid = "map2 (map2 (-)) (drop 2 r) (take (length r - 2) r)"
  let ?a = "map2 (-) (r ! 1) (r ! 0)"
  let ?z = "map2 (-) (r ! (length r - 1)) (r ! (length r - 2))"
  have W: "2 \<le> length r" using assms by simp
  have lm: "length ([?a] @ ?mid) = W - 1" using assms by simp
  have "([?a] @ ?mid @ [?z]) ! (W - 1) = (([?a] @ ?mid) @ [?z]) ! (W - 1)"
    by simp
  also have "\<dots> = ?z"
    using lm by (metis nth_append_length)
  finally have "([?a] @ ?mid @ [?z]) ! (W - 1) = ?z" .
  moreover have "W - 1 < length ([?a] @ ?mid @ [?z])" using assms by simp
  ultimately show ?thesis
    unfolding x_row_explicit[OF W] using assms(1) by (simp only: nth_map)
qed

lemma x_row_start:
  assumes "2 \<le> length r"
  shows "x_row r ! 0 = map (\<lambda>v. v * 0.5) (map2 (-) (r ! 1) (r ! 0))"
  unfolding x_row_explicit[OF assms] by simp

lemma x_row_shaped:
  assumes "shaped2 W C r" "2 \<le> W"
  shows "shaped2 W C (x_row r)"
proof -
  note len = shaped2_length[OF assms(1)] and n = shaped2_nth[OF assms(1)]
  have "length (x_row r ! j) = C" if jW: "j < W" for j
  proof -
    consider "j = 0" | "0 < j" "j < W - 1" | "j = W - 1" using jW by atomize_elim auto
    then show ?thesis
    proof cases
      case 1 then show ?thesis
        using x_row_start[of r] len assms(2) n[of 0] n[of 1] by simp
    next
      case 2 then show ?thesis
        using x_row_mid[OF len 2] n[of "j + 1"] n[of "j - 1"] by simp
    next
      case 3 then show ?thesis
        using x_row_end[OF len assms(2)] n[of "W - 1"] n[of "W - 2"] assms(2) by simp
    qed
  qed
  moreover have "length (x_row r) = W"
    using x_row_length assms(2) len by simp
  ultimately show ?thesis by (simp add: shaped2_def list_all_length)
qed

lemma x_row_first:
  assumes "shaped2 W C r" "2 \<le> W" "c < C"
  shows "x_row r ! 0 ! c = (r ! 1 ! c - r ! 0 ! c) * 0.5"
  using x_row_start[of r] shaped2_length[OF assms(1)] assms(2,3)
    shaped2_nth[OF assms(1), of 0] shaped2_nth[OF assms(1), of 1]
  by simp

lemma x_row_last:
  assumes "shaped2 W C r" "2 \<le> W" "c < C"
  shows "x_row r ! (W - 1) ! c = (r ! (W - 1) ! c - r ! (W - 2) ! c) * 0.5"
  using x_row_end[OF shaped2_length[OF assms(1)] assms(2)] assms(2,3)
    shaped2_nth[OF assms(1), of "W - 1"] shaped2_nth[OF assms(1), of "W - 2"]
  by simp

lemma x_row_inner:
  assumes "shaped2 W C r" "0 < j" "j < W - 1" "c < C"
  shows "x_row r ! j ! c = (r ! (j + 1) ! c - r ! (j - 1) ! c) * 0.5"
  using x_row_mid[OF shaped2_length[OF assms(1)] assms(2,3)] assms(2,3,4)
    shaped2_nth[OF assms(1), of "j + 1"] shaped2_nth[OF assms(1), of "j - 1"]
  by simp

text \<open>
  Claim C3, as the code has it. For an image tensor of shape \<open>(B, H, W, C)\<close> with at
  least two columns, \<^verbatim>\<open>GradientLoss._diff_x\<close> returns a tensor of the same shape. Its
  first and last columns are half the one-sided neighbour difference, its inner
  columns half the difference of the two neighbours.
\<close>

theorem diff_x_half_differences:
  assumes "shaped4 B H W C img" and "2 \<le> W"
  shows "shaped4 B H W C (diff_x img) \<and>
         (\<forall>b<B. \<forall>i<H. \<forall>c<C.
            diff_x img ! b ! i ! 0 ! c = (img ! b ! i ! 1 ! c - img ! b ! i ! 0 ! c) * 0.5 \<and>
            diff_x img ! b ! i ! (W - 1) ! c
              = (img ! b ! i ! (W - 1) ! c - img ! b ! i ! (W - 2) ! c) * 0.5 \<and>
            (\<forall>j. 0 < j \<and> j < W - 1 \<longrightarrow>
               diff_x img ! b ! i ! j ! c
                 = (img ! b ! i ! (j + 1) ! c - img ! b ! i ! (j - 1) ! c) * 0.5))"
proof -
  have B: "length img = B" and s3: "\<And>b. b < B \<Longrightarrow> shaped3 H W C (img ! b)"
    using assms(1) by (auto simp: shaped4_def list_all_length)
  have s2: "\<And>b i. b < B \<Longrightarrow> i < H \<Longrightarrow> shaped2 W C (img ! b ! i)"
    using s3 by (auto simp: shaped3_def list_all_length)
  have H: "\<And>b. b < B \<Longrightarrow> length (img ! b) = H"
    using s3 by (auto simp: shaped3_def)
  have nth: "\<And>b i. b < B \<Longrightarrow> i < H \<Longrightarrow> diff_x img ! b ! i = x_row (img ! b ! i)"
    using B H by (simp add: diff_x_rows)
  have "shaped4 B H W C (diff_x img)"
    using B H s2 x_row_shaped[OF _ assms(2)]
    by (auto simp: diff_x_rows shaped4_def shaped3_def list_all_length)
  moreover have "\<forall>b<B. \<forall>i<H. \<forall>c<C.
            diff_x img ! b ! i ! 0 ! c = (img ! b ! i ! 1 ! c - img ! b ! i ! 0 ! c) * 0.5 \<and>
            diff_x img ! b ! i ! (W - 1) ! c
              = (img ! b ! i ! (W - 1) ! c - img ! b ! i ! (W - 2) ! c) * 0.5 \<and>
            (\<forall>j. 0 < j \<and> j < W - 1 \<longrightarrow>
               diff_x img ! b ! i ! j ! c
                 = (img ! b ! i ! (j + 1) ! c - img ! b ! i ! (j - 1) ! c) * 0.5)"
    using nth x_row_first[OF s2 assms(2)] x_row_last[OF s2 assms(2)] x_row_inner[OF s2]
    by simp
  ultimately show ?thesis by blast
qed

theorem diff_x_half_differences_witness:
  "shaped4 1 1 4 1 [[[[0], [2], [4], [6::real]]]] \<and>
   shaped4 1 1 4 1 (diff_x [[[[0], [2], [4], [6]]]]) \<and>
   diff_x [[[[0], [2], [4], [6]]]] ! 0 ! 0 ! 0 ! 0 = (2 - 0) * 0.5 \<and>
   diff_x [[[[0], [2], [4], [6]]]] ! 0 ! 0 ! 3 ! 0 = (6 - 4) * 0.5 \<and>
   diff_x [[[[0], [2], [4], [6]]]] ! 0 ! 0 ! 1 ! 0 = (4 - 0) * 0.5"
proof -
  let ?img = "[[[[0], [2], [4], [6::real]]]]"
  have h: "shaped4 1 1 4 1 ?img"
    by (simp add: shaped4_def shaped3_def shaped2_def)
  have w: "(2::nat) \<le> 4" by simp
  note t = diff_x_half_differences[OF h w]
  from t have a: "shaped4 1 1 4 1 (diff_x ?img)" by blast
  from t have b: "diff_x ?img ! 0 ! 0 ! 0 ! 0 = (?img ! 0 ! 0 ! 1 ! 0 - ?img ! 0 ! 0 ! 0 ! 0) * 0.5"
    by blast
  from t have c: "diff_x ?img ! 0 ! 0 ! (4 - 1) ! 0
      = (?img ! 0 ! 0 ! (4 - 1) ! 0 - ?img ! 0 ! 0 ! (4 - 2) ! 0) * 0.5"
    by blast
  from t have d: "diff_x ?img ! 0 ! 0 ! 1 ! 0
      = (?img ! 0 ! 0 ! (1 + 1) ! 0 - ?img ! 0 ! 0 ! (1 - 1) ! 0) * 0.5"
    by force
  from h a b c d show ?thesis by simp
qed

text \<open>
  The claim as the specification states it fails: for the values \<open>[0, 2, 4, 6]\<close> the
  first entry of the field is 1, not \<open>value[1] - value[0] = 2\<close>.
\<close>

theorem diff_x_first_entry_counterexample:
  "diff_x [[[[0], [2], [4], [6]]]] = [[[[1], [2], [2], [1]]]] \<and>
   diff_x [[[[0], [2], [4], [6]]]] ! 0 ! 0 ! 0 ! 0 \<noteq> 2 - 0"
  by (simp add: diff_x_rows x_row_def py_slice_def)

section \<open>Generalized loss\<close>

lemma K_pow_2: "K_pow x 2 = x\<^sup>2"
  by (simp add: K_pow_def)

lemma K_pow_pos: "0 < x \<Longrightarrow> K_pow x a = x powr a"
  unfolding K_pow_def using powr_real_of_int'[of x "\<lfloor>a\<rfloor>"] by auto

lemma K_pow_1: "K_pow 1 a = 1"
  by (simp add: K_pow_pos)

lemma GeneralizedLoss_elem:
  "K_pow (K_pow (e / b) 2 / \<bar>2 - a\<bar> + 1) (a / 2) - 1 = (((e / b)\<^sup>2 / \<bar>2 - a\<bar> + 1) powr (a / 2) - 1)"
proof -
  have "0 \<le> (e / b)\<^sup>2 / \<bar>2 - a\<bar>"
    by (rule divide_nonneg_nonneg) simp_all
  then have "0 < (e / b)\<^sup>2 / \<bar>2 - a\<bar> + 1"
    by linarith
  then show ?thesis by (simp add: K_pow_2 K_pow_pos)
qed

lemma loss_elem_fun:
  "loss_elem a b = (\<lambda>e. (\<bar>2 - a\<bar> / a) * (((e / b)\<^sup>2 / \<bar>2 - a\<bar> + 1) powr (a / 2) - 1))"
  by (rule ext) (simp add: loss_elem_def)

lemma GeneralizedLoss_call_pixels:
  "GeneralizedLoss_call self y_true y_pred =
     map (map (map (\<lambda>p. K_mean (map (loss_elem (alpha self) (beta self)) p) * beta self)))
       (tsub y_pred y_true)"
  by (simp add: GeneralizedLoss_call_def Let_def tmap_def loss_elem_fun GeneralizedLoss_elem comp_def)

text \<open>
  Claim C2, as the code has it. For same-shaped tensors, \<open>alpha\<close> neither 0 nor 2 and
  \<open>beta > 0\<close>, \<^verbatim>\<open>GeneralizedLoss.call\<close> returns a tensor of shape \<open>(B, H, W)\<close>: at every
  pixel, \<open>beta\<close> times the mean over the channel axis (the last axis only) of the
  entry loss of the specification.
\<close>

theorem GeneralizedLoss_call_channel_mean:
  assumes yt: "shaped4 B H W C y_true" and yp: "shaped4 B H W C y_pred"
    and "alpha self \<noteq> 0" "alpha self \<noteq> 2" "0 < beta self"
  shows "shaped3 B H W (GeneralizedLoss_call self y_true y_pred) \<and>
         (\<forall>b<B. \<forall>i<H. \<forall>j<W.
            GeneralizedLoss_call self y_true y_pred ! b ! i ! j =
              beta self * K_mean (map (\<lambda>c. loss_elem (alpha self) (beta self)
                                        (y_pred ! b ! i ! j ! c - y_true ! b ! i ! j ! c)) [0..<C]))"
proof -
  let ?D = "tsub y_pred y_true"
  let ?g = "\<lambda>p. K_mean (map (loss_elem (alpha self) (beta self)) p) * beta self"
  note L = tzip_lengths[OF yp yt, where f = "(-)", folded tsub_def]
  have shp: "shaped3 B H W (map (map (map ?g)) ?D)"
    using L by (simp add: shaped3_def shaped2_def list_all_length)
  have px: "map (map (map ?g)) ?D ! b ! i ! j =
      beta self * K_mean (map (\<lambda>c. loss_elem (alpha self) (beta self)
                                        (y_pred ! b ! i ! j ! c - y_true ! b ! i ! j ! c)) [0..<C])"
    if b: "b < B" and i: "i < H" and j: "j < W" for b i j
  proof -
    have lp: "length (y_pred ! b ! i ! j) = C"
      using shaped2_nth[OF shaped3_nth[OF shaped4_nth[OF yp b] i] j] .
    have lt: "length (y_true ! b ! i ! j) = C"
      using shaped2_nth[OF shaped3_nth[OF shaped4_nth[OF yt b] i] j] .
    have "?D ! b ! i ! j = map (\<lambda>c. y_pred ! b ! i ! j ! c - y_true ! b ! i ! j ! c) [0..<C]"
      unfolding tsub_def tzip_nth[OF yp yt b i j] by (rule map2_nth_range[OF lp lt])
    then show ?thesis using L b i j by (simp add: comp_def mult.commute)
  qed
  show ?thesis unfolding GeneralizedLoss_call_pixels using shp px by blast
qed

theorem GeneralizedLoss_call_channel_mean_witness:
  "shaped4 1 1 2 1 [[[[0], [0::real]]]] \<and> shaped4 1 1 2 1 [[[[0], [2::real]]]] \<and>
   shaped3 1 1 2 (GeneralizedLoss_call \<lparr>alpha = 4, beta = 1\<rparr> [[[[0], [0]]]] [[[[0], [2]]]]) \<and>
   GeneralizedLoss_call \<lparr>alpha = 4, beta = 1\<rparr> [[[[0], [0]]]] [[[[0], [2]]]] ! 0 ! 0 ! 1 =
     1 * K_mean (map (\<lambda>c. loss_elem 4 1 ([[[[0], [2]]]] ! 0 ! 0 ! 1 ! c - [[[[0], [0]]]] ! 0 ! 0 ! 1 ! c))
                  [0..<1])"
proof -
  let ?t = "[[[[0], [0::real]]]]" and ?p = "[[[[0], [2::real]]]]"
  let ?g = "\<lparr>alpha = 4, beta = 1\<rparr>"
  have ht: "shaped4 1 1 2 1 ?t" and hp: "shaped4 1 1 2 1 ?p"
    by (simp_all add: shaped4_def shaped3_def shaped2_def)
  have a: "alpha ?g \<noteq> 0" "alpha ?g \<noteq> 2" "0 < beta ?g" by simp_all
  note t = GeneralizedLoss_call_channel_mean[OF ht hp a]
  from t have s: "shaped3 1 1 2 (GeneralizedLoss_call ?g ?t ?p)" by blast
  from t have e: "GeneralizedLoss_call ?g ?t ?p ! 0 ! 0 ! 1 =
      beta ?g * K_mean (map (\<lambda>c. loss_elem (alpha ?g) (beta ?g)
                                (?p ! 0 ! 0 ! 1 ! c - ?t ! 0 ! 0 ! 1 ! c)) [0..<1])"
    by force
  from ht hp s e show ?thesis by simp
qed

text \<open>
  The claim as the specification states it fails: on a \<open>1 \<times> 2\<close> image the call returns
  one value per pixel, \<open>[[[0, 4]]]\<close>, and not the mean over all non-batch axes, 2.
\<close>

theorem GeneralizedLoss_all_axes_counterexample:
  "GeneralizedLoss_call (GeneralizedLoss_init 4 1) [[[[0], [0]]]] [[[[0], [2]]]] = [[[0, 4]]] \<and>
   GeneralizedLoss_spec 4 1 [[[[0], [0]]]] [[[[0], [2]]]] = [2] \<and>
   concat (concat (GeneralizedLoss_call (GeneralizedLoss_init 4 1) [[[[0], [0]]]] [[[[0], [2]]]]))
     \<noteq> GeneralizedLoss_spec 4 1 [[[[0], [0]]]] [[[[0], [2]]]]"
  by (simp add: GeneralizedLoss_call_def GeneralizedLoss_init_def tsub_def tzip_def tmap_def
      K_pow_def K_mean_def GeneralizedLoss_spec_def loss_elem_def)

section \<open>Multiscale structural similarity: the filter size\<close>

lemma get_smallest_size_halvings:
  "get_smallest_size sz idx = ((\<lambda>s. s div 2) ^^ nat idx) sz"
proof (induction sz idx rule: get_smallest_size.induct)
  case (1 sz idx)
  show ?case
  proof (cases "idx > 0")
    case True
    then have n: "nat idx = Suc (nat (idx - 1))" by simp
    have "get_smallest_size sz idx = get_smallest_size (sz div 2) (idx - 1)"
      using True by (subst get_smallest_size.simps) simp
    also have "\<dots> = ((\<lambda>s. s div 2) ^^ nat (idx - 1)) (sz div 2)"
      using 1 True by simp
    also have "\<dots> = ((\<lambda>s. s div 2) ^^ nat idx) sz"
      unfolding n by (simp only: funpow_Suc_right o_apply)
    finally show ?thesis .
  next
    case False
    then show ?thesis by (subst get_smallest_size.simps) simp
  qed
qed

lemma halvings_pow: "((\<lambda>s. s div 2) ^^ n) (sz::int) = sz div 2 ^ n"
proof (induction n)
  case 0
  show ?case by simp
next
  case (Suc n)
  have "sz div 2 ^ n div 2 = sz div (2 ^ n * 2)"
    by (rule zdiv_zmult2_eq[symmetric]) simp
  with Suc show ?case by (simp add: mult.commute)
qed

text \<open>
  Claim C6. \<^verbatim>\<open>MSSSIMLoss.call\<close> passes to the library, as filter size, the minimum of the
  configured \<^verbatim>\<open>filter_size\<close> and the height of the input halved (integer division)
  once per power factor but the first. For height 32 and 5 power factors that size is
  2, and a configured filter size above 2 becomes 2.
\<close>

theorem MSSSIMLoss_filter_size_clamp:
  "MSSSIMLoss_call f self y_true y_pred =
     map (\<lambda>v. 1 - v)
       (f y_true y_pred (max_value self) (power_factors self)
          (min (filter_size self)
               (((\<lambda>s. s div 2) ^^ (length (power_factors self) - 1)) (int_shape_1 y_true)))
          (filter_sigma self) (k_1 self) (k_2 self)) \<and>
   get_smallest_size 32 (5 - 1) = 2 \<and>
   (int_shape_1 y_true = 32 \<and> length (power_factors self) = 5 \<and> 2 < filter_size self \<longrightarrow>
      MSSSIMLoss_call f self y_true y_pred =
        map (\<lambda>v. 1 - v)
          (f y_true y_pred (max_value self) (power_factors self) 2
             (filter_sigma self) (k_1 self) (k_2 self)))"
proof -
  have n: "nat (int (length (power_factors self)) - 1) = length (power_factors self) - 1"
    by simp
  have a: "MSSSIMLoss_call f self y_true y_pred =
     map (\<lambda>v. 1 - v)
       (f y_true y_pred (max_value self) (power_factors self)
          (min (filter_size self)
               (((\<lambda>s. s div 2) ^^ (length (power_factors self) - 1)) (int_shape_1 y_true)))
          (filter_sigma self) (k_1 self) (k_2 self))"
    unfolding MSSSIMLoss_call_def Let_def get_smallest_size_halvings n by (rule refl)
  have b: "get_smallest_size 32 (5 - 1) = 2"
    unfolding get_smallest_size_halvings halvings_pow by simp
  have c: "MSSSIMLoss_call f self y_true y_pred =
        map (\<lambda>v. 1 - v)
          (f y_true y_pred (max_value self) (power_factors self) 2
             (filter_sigma self) (k_1 self) (k_2 self))"
    if "int_shape_1 y_true = 32" "length (power_factors self) = 5" "2 < filter_size self"
    unfolding a halvings_pow using that by simp
  show ?thesis
    using a b c by (intro conjI impI) (erule conjE | assumption | simp)+
qed

theorem MSSSIMLoss_filter_size_clamp_witness:
  "int_shape_1 (replicate 1 (replicate 32 (replicate 32 [0, 0, 0::real]))) = 32 \<and>
   MSSSIMLoss_call (\<lambda>t p mv pf fs sg k1 k2. [real_of_int fs])
      \<lparr>filter_size = 4, filter_sigma = 1.5, k_1 = 0.01, k_2 = 0.03, max_value = 1.0,
       power_factors = [0.0448, 0.2856, 0.3001, 0.2363, 0.1333]\<rparr>
      (replicate 1 (replicate 32 (replicate 32 [0, 0, 0])))
      (replicate 1 (replicate 32 (replicate 32 [0, 0, 0]))) = [1 - 2]"
proof -
  let ?t = "replicate 1 (replicate 32 (replicate 32 [0, 0, 0::real]))"
  let ?m = "\<lparr>filter_size = 4, filter_sigma = 1.5, k_1 = 0.01, k_2 = 0.03, max_value = 1.0,
       power_factors = [0.0448, 0.2856, 0.3001, 0.2363, 0.1333]\<rparr>"
  let ?f = "\<lambda>(t::tensor4) (p::tensor4) (mv::real) (pf::real list) (fs::int) (sg::real) (k1::real) (k2::real). [real_of_int fs]"
  have h: "int_shape_1 ?t = 32" by (simp add: int_shape_1_def)
  have l: "length (power_factors ?m) = 5" and fs: "2 < filter_size ?m" by simp_all
  from MSSSIMLoss_filter_size_clamp[of ?f ?m ?t ?t] h l fs
  have "MSSSIMLoss_call ?f ?m ?t ?t = map (\<lambda>v. 1 - v) [real_of_int 2]"
    by blast
  with h show ?thesis by simp
qed

section \<open>Loss wrapper without masks\<close>

lemma py_slice_take3: "py_slice None (Some 3) p = take 3 p"
  by (simp add: py_slice_def Let_def min_def) 

lemma channel_slice_take3: "channel_slice None (Some 3) y = map (map (map (take 3))) y"
  by (simp add: channel_slice_def py_slice_take3)

lemma apply_mask_none:
  "apply_mask y_true y_pred (- 1) mp =
     Inr (map (map (map (take 3))) y_true, map (map (map (take 3))) y_pred)"
  by (simp add: apply_mask_def channel_slice_take3)

lemma register_all_fields:
  "loss_functions (register_all regs) = map fst regs \<and>
   loss_weights (register_all regs) = map snd regs \<and>
   mask_channels (register_all regs) = map (\<lambda>_. - 1) regs"
proof -
  have "loss_functions (foldl (\<lambda>w (f, wt). add_loss f wt (- 1) w) w0 regs)
          = loss_functions w0 @ map fst regs \<and>
        loss_weights (foldl (\<lambda>w (f, wt). add_loss f wt (- 1) w) w0 regs)
          = loss_weights w0 @ map snd regs \<and>
        mask_channels (foldl (\<lambda>w (f, wt). add_loss f wt (- 1) w) w0 regs)
          = mask_channels w0 @ map (\<lambda>_. - 1) regs" for w0
    by (induction regs arbitrary: w0) (auto simp: add_loss_def)
  from this[of LossWrapper_init] show ?thesis
    by (simp add: register_all_def LossWrapper_init_def)
qed

lemma call_loop_no_mask:
  "call_loop (zip (map fst regs) (zip (map snd regs) (map (\<lambda>_. - 1) regs))) y_true y_pred acc =
     Inr (acc + (\<Sum>(f, wt) \<leftarrow> regs.
            f (map (map (map (take 3))) y_true) (map (map (map (take 3))) y_pred) * wt))"
  by (induction regs arbitrary: acc) (auto simp: apply_mask_none)

text \<open>
  Claim C7. A metric registered with mask channel \<open>-1\<close> (and the default weight) is
  applied to the first three channels of \<^verbatim>\<open>y_true\<close> and of \<^verbatim>\<open>y_pred\<close>; with any number
  of such registrations the result is the weighted sum of the metrics on those
  channels, the same as on the pre-sliced tensors: the other channels are ignored.
\<close>

theorem LossWrapper_no_mask_first_three_channels:
  "LossWrapper_call (add_loss f 1.0 (- 1) LossWrapper_init) y_true y_pred =
     Inr (f (map (map (map (take 3))) y_true) (map (map (map (take 3))) y_pred)) \<and>
   LossWrapper_call (register_all regs) y_true y_pred =
     Inr (\<Sum>(f, wt) \<leftarrow> regs.
            f (map (map (map (take 3))) y_true) (map (map (map (take 3))) y_pred) * wt) \<and>
   LossWrapper_call (register_all regs) y_true y_pred =
     LossWrapper_call (register_all regs) (map (map (map (take 3))) y_true)
       (map (map (map (take 3))) y_pred)"
proof -
  have one: "LossWrapper_call (add_loss f 1.0 (- 1) LossWrapper_init) y_true y_pred =
     Inr (f (map (map (map (take 3))) y_true) (map (map (map (take 3))) y_pred))"
    by (simp add: LossWrapper_call_def add_loss_def LossWrapper_init_def apply_mask_none)
  have all: "LossWrapper_call (register_all regs) yt yp =
     Inr (\<Sum>(f, wt) \<leftarrow> regs.
            f (map (map (map (take 3))) yt) (map (map (map (take 3))) yp) * wt)" for yt yp
    using call_loop_no_mask[of regs yt yp 0]
    by (simp add: LossWrapper_call_def register_all_fields)
  have idem: "map (map (map (take 3))) (map (map (map (take 3))) y) = map (map (map (take 3))) y"
    for y :: tensor4
    by simp
  show ?thesis
    using one all[of y_true y_pred]
      all[of "map (map (map (take 3))) y_true" "map (map (map (take 3))) y_pred"]
    by (simp only: idem) 
qed

theorem LossWrapper_no_mask_first_three_channels_witness:
  "LossWrapper_call
     (add_loss (\<lambda>t p. sum_list (concat (concat (concat t))) - sum_list (concat (concat (concat p))))
        1.0 (- 1) LossWrapper_init)
     [[[[1, 2, 3, 4, 5, 6]]]] [[[[1, 1, 1]]]] = Inr 3"
  using LossWrapper_no_mask_first_three_channels
    [of "\<lambda>t p. sum_list (concat (concat (concat t))) - sum_list (concat (concat (concat p)))"
        "[[[[1, 2, 3, 4, 5, 6]]]]" "[[[[1, 1, 1]]]]" "[]"]
  by simp

text \<open>
  Claim C10. With no registered loss function the wrapper returns 0 for every pair of
  inputs.
\<close>

theorem LossWrapper_no_registrations:
  "LossWrapper_call LossWrapper_init y_true y_pred = Inr 0"
  by (simp add: LossWrapper_call_def LossWrapper_init_def)

section \<open>L-infinity norm\<close>

lemma foldl_max_Max: "foldl max (x::real) xs = Max (set (x # xs))"
proof -
  have "foldl max x xs = fold max xs x"
    by (simp add: foldl_conv_fold max.commute)
  also have "\<dots> = Max (set (x # xs))"
    by (rule Max.set_eq_fold[symmetric])
  finally show ?thesis .
qed

lemma set_map_nth: "set (map g xs) = (\<lambda>i. g (xs ! i)) ` {..<length xs}"
proof -
  have "set xs = (\<lambda>i. xs ! i) ` {..<length xs}"
    by (auto simp: in_set_conv_nth)
  then have "g ` set xs = g ` ((\<lambda>i. xs ! i) ` {..<length xs})" by simp
  then show ?thesis by (simp add: image_image)
qed

lemma foldl_map2_pixels:
  assumes "length p = n" "list_all (\<lambda>q. length q = n) ps"
  shows "length (foldl (map2 m) p ps) = n \<and>
         (\<forall>c<n. foldl (map2 m) p ps ! c = foldl m (p ! c) (map (\<lambda>q. q ! c) ps))"
  using assms
proof (induction ps arbitrary: p)
  case Nil
  then show ?case by simp
next
  case (Cons q ps)
  have l: "length (map2 m p q) = n" using Cons.prems by simp
  have r: "list_all (\<lambda>q. length q = n) ps" using Cons.prems by simp
  from Cons.IH[OF l r] Cons.prems show ?case by simp
qed

lemma foldl_map2_rows:
  assumes "shaped2 W C x" "list_all (shaped2 W C) rest"
  shows "shaped2 W C (foldl (map2 (map2 m)) x rest) \<and>
         (\<forall>j<W. \<forall>c<C. foldl (map2 (map2 m)) x rest ! j ! c
                          = foldl m (x ! j ! c) (map (\<lambda>r. r ! j ! c) rest))"
  using assms
proof (induction rest arbitrary: x)
  case Nil
  then show ?case by simp
next
  case (Cons r rest)
  have r2: "shaped2 W C r" and rs: "list_all (shaped2 W C) rest"
    using Cons.prems by simp_all
  have l: "shaped2 W C (map2 (map2 m) x r)"
    by (rule shaped2_map2[OF Cons.prems(1) r2])
  have e: "map2 (map2 m) x r ! j ! c = m (x ! j ! c) (r ! j ! c)" if "j < W" "c < C" for j c
    using that shaped2_length[OF Cons.prems(1)] shaped2_length[OF r2]
      shaped2_nth[OF Cons.prems(1), of j] shaped2_nth[OF r2, of j]
    by simp
  from Cons.IH[OF l rs] e show ?case by simp
qed

lemma Max_Max_pairs:
  fixes f :: "nat \<Rightarrow> nat \<Rightarrow> real"
  assumes "0 < H" "0 < W"
  shows "Max ((\<lambda>j. Max ((\<lambda>i. f i j) ` {..<H})) ` {..<W})
           = Max (set [f i j. i \<leftarrow> [0..<H], j \<leftarrow> [0..<W]])"
proof -
  let ?g = "\<lambda>j. Max ((\<lambda>i. f i j) ` {..<H})"
  let ?S = "set [f i j. i \<leftarrow> [0..<H], j \<leftarrow> [0..<W]]"
  have S: "?S = (\<lambda>(i, j). f i j) ` ({..<H} \<times> {..<W})"
    by (fastforce simp: image_iff)
  have neH: "(\<lambda>i. f i j) ` {..<H} \<noteq> {}" for j using assms(1) by auto
  have neW: "?g ` {..<W} \<noteq> {}" using assms(2) by auto
  obtain j0 where j0: "j0 < W" "Max (?g ` {..<W}) = ?g j0"
    using Max_in[OF _ neW] by auto
  obtain i0 where i0: "i0 < H" "?g j0 = f i0 j0"
    using Max_in[OF _ neH[of j0]] by auto
  have mem: "Max (?g ` {..<W}) \<in> ?S"
    unfolding S using i0 j0 by (auto simp: image_iff)
  have ub: "y \<le> Max (?g ` {..<W})" if "y \<in> ?S" for y
  proof -
    from that obtain i j where ij: "i < H" "j < W" "y = f i j"
      unfolding S by auto
    have "f i j \<le> ?g j" using ij(1) by (intro Max_ge) auto
    also have "?g j \<le> Max (?g ` {..<W})" using ij(2) by (intro Max_ge) auto
    finally show ?thesis using ij(3) by simp
  qed
  show ?thesis
    by (rule sym, rule Max_eqI) (use mem ub in auto)
qed

lemma K_max_12_sample:
  assumes s: "shaped3 H W C s" and H: "0 < H" and W: "0 < W"
  shows "K_max_12 s = [[map (\<lambda>c. Max (set [s ! i ! j ! c. i \<leftarrow> [0..<H], j \<leftarrow> [0..<W]])) [0..<C]]]"
proof -
  from s H obtain x rest where sx: "s = x # rest"
    by (cases s) (auto simp: shaped3_def)
  have x2: "shaped2 W C x" and rest2: "list_all (shaped2 W C) rest"
    using s sx by (simp_all add: shaped3_def)
  let ?R = "foldl (map2 (map2 max)) x rest"
  note R = foldl_map2_rows[OF x2 rest2, of max]
  have R2: "shaped2 W C ?R" using R by blast
  have Rn: "?R ! j ! c = Max ((\<lambda>i. s ! i ! j ! c) ` {..<H})" if "j < W" "c < C" for j c
  proof -
    have "?R ! j ! c = foldl max (x ! j ! c) (map (\<lambda>r. r ! j ! c) rest)"
      using R that by blast
    also have "\<dots> = Max (set (map (\<lambda>r. r ! j ! c) s))"
      unfolding foldl_max_Max sx by simp
    also have "set (map (\<lambda>r. r ! j ! c) s) = (\<lambda>i. s ! i ! j ! c) ` {..<H}"
      unfolding set_map_nth shaped3_length[OF s] ..
    finally show ?thesis .
  qed
  from R2 W obtain p ps where Rp: "?R = p # ps"
    by (cases ?R) (auto simp: shaped2_def)
  have p: "length p = C" and ps: "list_all (\<lambda>q. length q = C) ps"
    using R2 Rp by (simp_all add: shaped2_def)
  let ?P = "foldl (map2 max) p ps"
  note P = foldl_map2_pixels[OF p ps, of max]
  have Pl: "length ?P = C" using P by blast
  have Pn: "?P ! c = Max (set [s ! i ! j ! c. i \<leftarrow> [0..<H], j \<leftarrow> [0..<W]])" if c: "c < C" for c
  proof -
    have "?P ! c = foldl max (p ! c) (map (\<lambda>q. q ! c) ps)"
      using P c by blast
    also have "\<dots> = Max (set (map (\<lambda>q. q ! c) ?R))"
      unfolding foldl_max_Max Rp by simp
    also have "set (map (\<lambda>q. q ! c) ?R) = (\<lambda>j. ?R ! j ! c) ` {..<W}"
      unfolding set_map_nth shaped2_length[OF R2] ..
    also have "\<dots> = (\<lambda>j. Max ((\<lambda>i. s ! i ! j ! c) ` {..<H})) ` {..<W}"
      using Rn c by auto
    also have "Max \<dots> = Max (set [s ! i ! j ! c. i \<leftarrow> [0..<H], j \<leftarrow> [0..<W]])"
      by (rule Max_Max_pairs[OF H W])
    finally show ?thesis .
  qed
  have "?P = map (\<lambda>c. Max (set [s ! i ! j ! c. i \<leftarrow> [0..<H], j \<leftarrow> [0..<W]])) [0..<C]"
    using Pl Pn by (auto intro!: nth_equalityI)
  then show ?thesis
    using sx Rp by (simp add: K_max_12_def max_over_def)
qed

lemma tmap_shaped: "shaped4 B H W C t \<Longrightarrow> shaped4 B H W C (tmap f t)"
  unfolding tmap_def by (rule shaped4_map[where F = "map (map (map f))"]) (rule shaped3_map)

lemma tzip_shaped:
  assumes "shaped4 B H W C x" "shaped4 B H W C y"
  shows "shaped4 B H W C (tzip f x y)"
  using assms
  by (auto simp: tzip_def shaped4_def list_all_length intro: shaped3_map2)

lemma tmap_nth:
  assumes "shaped4 B H W C t" "b < B" "i < H" "j < W"
  shows "tmap f t ! b ! i ! j = map f (t ! b ! i ! j)"
  using assms(2-4) shaped4_length[OF assms(1)]
    shaped3_length[OF shaped4_nth[OF assms(1,2)]]
    shaped2_length[OF shaped3_nth[OF shaped4_nth[OF assms(1,2)] assms(3)]]
  by (simp add: tmap_def)

lemma abs_diff_entry:
  assumes yt: "shaped4 B H W C y_true" and yp: "shaped4 B H W C y_pred"
    and b: "b < B" and i: "i < H" and j: "j < W" and c: "c < C"
  shows "tmap abs (tsub y_true y_pred) ! b ! i ! j ! c
           = \<bar>y_true ! b ! i ! j ! c - y_pred ! b ! i ! j ! c\<bar>"
proof -
  have lt: "length (y_true ! b ! i ! j) = C"
    using shaped2_nth[OF shaped3_nth[OF shaped4_nth[OF yt b] i] j] .
  have lp: "length (y_pred ! b ! i ! j) = C"
    using shaped2_nth[OF shaped3_nth[OF shaped4_nth[OF yp b] i] j] .
  have D: "shaped4 B H W C (tsub y_true y_pred)"
    unfolding tsub_def by (rule tzip_shaped[OF yt yp])
  have "tmap abs (tsub y_true y_pred) ! b ! i ! j = map abs (tsub y_true y_pred ! b ! i ! j)"
    by (rule tmap_nth[OF D b i j])
  also have "tsub y_true y_pred ! b ! i ! j = map2 (-) (y_true ! b ! i ! j) (y_pred ! b ! i ! j)"
    unfolding tsub_def by (rule tzip_nth[OF yt yp b i j])
  finally show ?thesis using lt lp c by simp
qed

text \<open>
  Claim C8. For same-shaped tensors with at least one row and one column,
  \<^verbatim>\<open>LInfNorm.call\<close> returns for every batch sample one number: the mean over the
  channel axis of the maximum over the two spatial axes of the absolute error.
\<close>

theorem LInfNorm_call_mean_of_max:
  assumes yt: "shaped4 B H W C y_true" and yp: "shaped4 B H W C y_pred"
    and H: "0 < H" and W: "0 < W"
  shows "LInfNorm_call y_true y_pred =
           map (\<lambda>b. [[LInfNorm_spec H W C (y_true ! b) (y_pred ! b)]]) [0..<B]"
proof -
  let ?D = "tmap abs (tsub y_true y_pred)"
  have D4: "shaped4 B H W C ?D"
    by (rule tmap_shaped) (simp add: tsub_def tzip_shaped[OF yt yp])
  have call: "LInfNorm_call y_true y_pred = map (\<lambda>s. map (map K_mean) (K_max_12 s)) ?D"
    by (simp add: LInfNorm_call_def Let_def)
  have sample: "map (map K_mean) (K_max_12 (?D ! b)) = [[LInfNorm_spec H W C (y_true ! b) (y_pred ! b)]]"
    if b: "b < B" for b
  proof -
    have "[?D ! b ! i ! j ! c. i \<leftarrow> [0..<H], j \<leftarrow> [0..<W]]
          = [\<bar>y_true ! b ! i ! j ! c - y_pred ! b ! i ! j ! c\<bar>. i \<leftarrow> [0..<H], j \<leftarrow> [0..<W]]"
      if c: "c < C" for c
      using abs_diff_entry[OF yt yp b _ _ c]
      by (intro arg_cong[where f = concat] map_cong refl) simp
    then have eq: "map (\<lambda>c. Max (set [?D ! b ! i ! j ! c. i \<leftarrow> [0..<H], j \<leftarrow> [0..<W]])) [0..<C]
      = map (\<lambda>c. Max (set [\<bar>y_true ! b ! i ! j ! c - y_pred ! b ! i ! j ! c\<bar>.
                              i \<leftarrow> [0..<H], j \<leftarrow> [0..<W]])) [0..<C]"
      by (intro map_cong refl) simp
    show ?thesis
      unfolding K_max_12_sample[OF shaped4_nth[OF D4 b] H W] LInfNorm_spec_def eq
      by (simp only: list.map)
  qed
  show ?thesis
    unfolding call using shaped4_length[OF D4] sample
    by (auto intro!: nth_equalityI)
qed

theorem LInfNorm_call_mean_of_max_witness:
  "shaped4 1 2 2 2 [[[[0, 1], [2, 3]], [[4, 5], [6, 7::real]]]] \<and>
   shaped4 1 2 2 2 [[[[0, 0], [0, 0]], [[0, 0], [0, 9::real]]]] \<and>
   LInfNorm_call [[[[0, 1], [2, 3]], [[4, 5], [6, 7]]]] [[[[0, 0], [0, 0]], [[0, 0], [0, 9]]]]
     = [[[11 / 2]]]"
proof -
  let ?t = "[[[[0, 1], [2, 3]], [[4, 5], [6, 7::real]]]]"
  let ?p = "[[[[0, 0], [0, 0]], [[0, 0], [0, 9::real]]]]"
  have ht: "shaped4 1 2 2 2 ?t" and hp: "shaped4 1 2 2 2 ?p"
    by (simp_all add: shaped4_def shaped3_def shaped2_def)
  have "LInfNorm_call ?t ?p = map (\<lambda>b. [[LInfNorm_spec 2 2 2 (?t ! b) (?p ! b)]]) [0..<1]"
    by (rule LInfNorm_call_mean_of_max[OF ht hp]) simp_all
  also have "\<dots> = [[[11 / 2]]]"
    by (simp add: LInfNorm_spec_def K_mean_def upt_rec)
  finally show ?thesis using ht hp by simp
qed

section \<open>Generalized loss: \<open>alpha\<close> 0 and 2\<close>

lemma foldl_fl_add_NaN: "foldl fl_add NaN xs = NaN"
  by (induction xs) simp_all

lemma fl_mean_NaN: "fl_mean (map (\<lambda>_. NaN) xs) = NaN"
  by (cases xs) (simp_all add: fl_mean_def foldl_fl_add_NaN)

text \<open>
  With \<open>alpha = 2\<close> the factor \<^verbatim>\<open>K.abs(2. - alpha) / alpha\<close> is 0 and the inner quotient
  divides by 0: the second factor is infinite (undefined where the difference is 0), and
  the product is undefined.
\<close>

lemma elem_alpha_2:
  assumes "b \<noteq> 0"
  shows "fl_mul (fl_div (fl_abs (Fin (2.0 - 2))) (Fin 2))
           (fl_sub (fl_pow (fl_add (fl_div (fl_pow (fl_div (Fin d) (Fin b)) 2.0)
                                           (fl_abs (Fin (2.0 - 2))))
                                   (Fin 1.0))
                           (2 / 2.0))
                   (Fin 1.0)) = NaN"
proof (cases "d = 0")
  case True
  then show ?thesis using assms
    by (simp add: fl_pow_def fl_sub_def fl_mul_def K_pow_def)
next
  case False
  then have "0 < (d / b)\<^sup>2" using assms by simp
  then show ?thesis using assms False
    by (simp add: fl_pow_def fl_sub_def fl_mul_def K_pow_def fl_pos_def)
qed

text \<open>
  With \<open>alpha = 0\<close> the factor \<^verbatim>\<open>K.abs(2. - alpha) / alpha\<close> is infinite and the power has
  exponent 0, so the second factor is \<open>1 - 1 = 0\<close>: the product is undefined.
\<close>

lemma elem_alpha_0:
  assumes "b \<noteq> 0"
  shows "fl_mul (fl_div (fl_abs (Fin (2.0 - 0))) (Fin 0))
           (fl_sub (fl_pow (fl_add (fl_div (fl_pow (fl_div (Fin d) (Fin b)) 2.0)
                                           (fl_abs (Fin (2.0 - 0))))
                                   (Fin 1.0))
                           (0 / 2.0))
                   (Fin 1.0)) = NaN"
  using assms by (simp add: fl_pow_def fl_sub_def fl_mul_def K_pow_def)

lemma GeneralizedLoss_call_float_nan:
  assumes a: "a = 0 \<or> a = 2" and b: "b \<noteq> 0"
  shows "GeneralizedLoss_call_float (GeneralizedLoss_init a b) y_true y_pred =
           Inr (map (map (map (\<lambda>_. NaN))) (tsub y_pred y_true))"
proof -
  have e: "fl_mul (fl_div (fl_abs (Fin (2.0 - a))) (Fin a))
           (fl_sub (fl_pow (fl_add (fl_div (fl_pow (fl_div (Fin d) (Fin b)) 2.0)
                                           (fl_abs (Fin (2.0 - a))))
                                   (Fin 1.0))
                           (a / 2.0))
                   (Fin 1.0)) = NaN" for d
    using a elem_alpha_0[OF b, of d] elem_alpha_2[OF b, of d] by auto
  have m: "fl_mul (fl_mean (map (\<lambda>_. NaN) p)) (Fin b) = NaN" for p :: "real list"
    by (simp add: fl_mean_NaN fl_mul_def)
  have half: "py_truediv a 2.0 = Inr (a / 2.0)"
    by (simp add: py_truediv_def)
  show ?thesis
    unfolding GeneralizedLoss_call_float_def GeneralizedLoss_init_def
    by (simp only: GeneralizedLoss.select_convs half sum.case Let_def map_map comp_def e m)
qed

text \<open>The call has no \<^verbatim>\<open>raise\<close>, and its one float division has the divisor \<open>2.\<close>: it returns.\<close>

lemma GeneralizedLoss_call_float_returns:
  "\<exists>loss. GeneralizedLoss_call_float self y_true y_pred = Inr loss"
  by (simp add: GeneralizedLoss_call_float_def py_truediv_def Let_def)

text \<open>
  Away from these two values of \<open>alpha\<close>, with \<open>beta\<close> not 0 and at least one channel, every
  intermediate value is finite and the floating-point call returns the values of the
  call on reals.
\<close>

lemma foldl_fl_add_Fin: "foldl fl_add (Fin a) (map Fin xs) = Fin (a + sum_list xs)"
  by (induction xs arbitrary: a) (simp_all add: add.assoc)

lemma fl_mean_Fin: "xs \<noteq> [] \<Longrightarrow> fl_mean (map Fin xs) = Fin (K_mean xs)"
  by (simp add: fl_mean_def foldl_fl_add_Fin K_mean_def)

lemma elem_finite:
  assumes a0: "a \<noteq> 0" and a2: "a \<noteq> 2" and b: "b \<noteq> 0"
  shows "fl_mul (fl_div (fl_abs (Fin (2.0 - a))) (Fin a))
           (fl_sub (fl_pow (fl_add (fl_div (fl_pow (fl_div (Fin d) (Fin b)) 2.0)
                                           (fl_abs (Fin (2.0 - a))))
                                   (Fin 1.0))
                           (a / 2.0))
                   (Fin 1.0))
         = Fin ((\<bar>2 - a\<bar> / a) * (K_pow (K_pow (d / b) 2 / \<bar>2 - a\<bar> + 1) (a / 2) - 1))"
proof -
  have p2: "fl_pow (fl_div (Fin d) (Fin b)) 2.0 = Fin (K_pow (d / b) 2)"
    using b by (simp add: fl_pow_def)
  have ne: "\<bar>2 - a\<bar> \<noteq> 0" using a2 by simp
  have "0 \<le> K_pow (d / b) 2 / \<bar>2 - a\<bar>"
    by (rule divide_nonneg_nonneg) (simp_all add: K_pow_2)
  then have pos: "0 < K_pow (d / b) 2 / \<bar>2 - a\<bar> + 1" by linarith
  have base: "fl_add (fl_div (Fin (K_pow (d / b) 2)) (fl_abs (Fin (2.0 - a)))) (Fin 1.0)
                = Fin (K_pow (d / b) 2 / \<bar>2 - a\<bar> + 1)"
    using ne by simp
  have pw: "fl_pow (Fin (K_pow (d / b) 2 / \<bar>2 - a\<bar> + 1)) (a / 2.0)
              = Fin (K_pow (K_pow (d / b) 2 / \<bar>2 - a\<bar> + 1) (a / 2))"
    using pos a0 by (simp add: fl_pow_def)
  have co: "fl_div (fl_abs (Fin (2.0 - a))) (Fin a) = Fin (\<bar>2 - a\<bar> / a)"
    using a0 by simp
  show ?thesis
    unfolding p2 base pw co by (simp add: fl_sub_def fl_mul_def)
qed

lemma map3_cong:
  "(\<And>s r p. s \<in> set D \<Longrightarrow> r \<in> set s \<Longrightarrow> p \<in> set r \<Longrightarrow> f p = g p) \<Longrightarrow>
   map (map (map f)) D = map (map (map g)) D"
  by (auto intro!: map_cong)

lemma GeneralizedLoss_call_float_finite:
  assumes a0: "alpha self \<noteq> 0" and a2: "alpha self \<noteq> 2" and b: "beta self \<noteq> 0"
    and yt: "shaped4 B H W C y_true" and yp: "shaped4 B H W C y_pred" and C: "0 < C"
  shows "GeneralizedLoss_call_float self y_true y_pred =
           Inr (map (map (map Fin)) (GeneralizedLoss_call self y_true y_pred))"
proof -
  let ?a = "alpha self" and ?b = "beta self"
  let ?D = "tsub y_pred y_true"
  let ?el = "\<lambda>d. (\<bar>2 - ?a\<bar> / ?a) * (K_pow (K_pow (d / ?b) 2 / \<bar>2 - ?a\<bar> + 1) (?a / 2) - 1)"
  have half: "py_truediv ?a 2.0 = Inr (?a / 2.0)"
    by (simp add: py_truediv_def)
  have fl: "GeneralizedLoss_call_float self y_true y_pred =
      Inr (map (map (map (\<lambda>p. fl_mul (fl_mean (map (\<lambda>d. Fin (?el d)) p)) (Fin ?b)))) ?D)"
    unfolding GeneralizedLoss_call_float_def
    by (simp only: half sum.case Let_def map_map comp_def elem_finite[OF a0 a2 b])
  have re: "map (map (map Fin)) (GeneralizedLoss_call self y_true y_pred) =
      map (map (map (\<lambda>p. Fin (K_mean (map ?el p) * ?b)))) ?D"
    by (simp add: GeneralizedLoss_call_def Let_def tmap_def comp_def)
  have D4: "shaped4 B H W C ?D"
    unfolding tsub_def by (rule tzip_shaped[OF yp yt])
  have px: "fl_mul (fl_mean (map (\<lambda>d. Fin (?el d)) p)) (Fin ?b) = Fin (K_mean (map ?el p) * ?b)"
    if "s \<in> set ?D" "r \<in> set s" "p \<in> set r" for s r p
  proof -
    from D4 that have "length p = C"
      by (auto simp: shaped4_def shaped3_def shaped2_def list_all_iff)
    with C have ne: "map ?el p \<noteq> []" by auto
    have eq: "map (\<lambda>d. Fin (?el d)) p = map Fin (map ?el p)"
      by (simp only: map_map comp_def)
    have mul: "fl_mul (Fin u) (Fin v) = Fin (u * v)" for u v
      by (simp add: fl_mul_def)
    show ?thesis
      unfolding eq fl_mean_Fin[OF ne] mul ..
  qed
  show ?thesis
    unfolding fl re by (simp only: map3_cong[OF px])
qed

text \<open>
  Claim C4, as the code has it. With \<open>alpha\<close> exactly 0 or exactly 2 (and \<open>beta\<close> not 0)
  construction stores \<open>alpha\<close> as given, and the call on two images of one shape raises
  nothing: it returns a tensor of that batch size, height and width whose every entry is
  the undefined floating-point value.
\<close>

theorem GeneralizedLoss_alpha_0_or_2_returns_nan:
  assumes a: "a = 0 \<or> a = 2" and b: "b \<noteq> 0"
    and yt: "shaped4 B H W C y_true" and yp: "shaped4 B H W C y_pred"
  shows "GeneralizedLoss_call_float (GeneralizedLoss_init a b) y_true y_pred =
           Inr (replicate B (replicate H (replicate W NaN))) \<and>
         alpha (GeneralizedLoss_init a b) = a"
proof -
  have D4: "shaped4 B H W C (tsub y_pred y_true)"
    unfolding tsub_def by (rule tzip_shaped[OF yp yt])
  have "GeneralizedLoss_call_float (GeneralizedLoss_init a b) y_true y_pred =
           Inr (map (map (map (\<lambda>_. NaN))) (tsub y_pred y_true))"
    by (rule GeneralizedLoss_call_float_nan[OF a b])
  also have "map (map (map (\<lambda>_. NaN))) (tsub y_pred y_true)
               = replicate B (replicate H (replicate W NaN))"
    by (rule shaped4_const3[OF D4])
  finally show ?thesis by (simp add: GeneralizedLoss_init_def)
qed

theorem GeneralizedLoss_alpha_0_or_2_returns_nan_witness:
  "shaped4 1 1 2 3 [[[[0, 0, 0], [1, 1, 1::real]]]] \<and>
   shaped4 1 1 2 3 [[[[0, 1, 0], [1, 0, 1::real]]]] \<and>
   GeneralizedLoss_call_float (GeneralizedLoss_init 2 (1 / 255))
     [[[[0, 0, 0], [1, 1, 1]]]] [[[[0, 1, 0], [1, 0, 1]]]] = Inr [[[NaN, NaN]]] \<and>
   GeneralizedLoss_call_float (GeneralizedLoss_init 0 (1 / 255))
     [[[[0, 0, 0], [1, 1, 1]]]] [[[[0, 1, 0], [1, 0, 1]]]] = Inr [[[NaN, NaN]]]"
proof -
  let ?t = "[[[[0, 0, 0], [1, 1, 1::real]]]]" and ?p = "[[[[0, 1, 0], [1, 0, 1::real]]]]"
  have ht: "shaped4 1 1 2 3 ?t" and hp: "shaped4 1 1 2 3 ?p"
    by (simp_all add: shaped4_def shaped3_def shaped2_def)
  have b: "(1 / 255 :: real) \<noteq> 0" by simp
  have a2: "(2::real) = 0 \<or> (2::real) = 2" and a0: "(0::real) = 0 \<or> (0::real) = 2" by simp_all
  have r2: "GeneralizedLoss_call_float (GeneralizedLoss_init 2 (1 / 255)) ?t ?p
              = Inr (replicate 1 (replicate 1 (replicate 2 NaN)))"
    using GeneralizedLoss_alpha_0_or_2_returns_nan[OF a2 b ht hp] by (rule conjunct1)
  have r0: "GeneralizedLoss_call_float (GeneralizedLoss_init 0 (1 / 255)) ?t ?p
              = Inr (replicate 1 (replicate 1 (replicate 2 NaN)))"
    using GeneralizedLoss_alpha_0_or_2_returns_nan[OF a0 b ht hp] by (rule conjunct1)
  have n: "replicate 1 (replicate 1 (replicate 2 NaN)) = [[[NaN, NaN]]]"
    by (simp add: numeral_2_eq_2)
  from ht hp r2 r0 show ?thesis unfolding n by (intro conjI)
qed

text \<open>
  The claim as the specification states it fails: with \<open>alpha\<close> exactly 0 and exactly 2
  the loss is constructed and its first call returns a value, not an error.
\<close>

theorem GeneralizedLoss_alpha_0_2_counterexample:
  "GeneralizedLoss_call_float (GeneralizedLoss_init 0 (1 / 255)) [[[[0]]]] [[[[1]]]] = Inr [[[NaN]]] \<and>
   GeneralizedLoss_call_float (GeneralizedLoss_init 2 (1 / 255)) [[[[0]]]] [[[[1]]]] = Inr [[[NaN]]] \<and>
   \<not> isl (GeneralizedLoss_call_float (GeneralizedLoss_init 0 (1 / 255)) [[[[0]]]] [[[[1]]]]) \<and>
   \<not> isl (GeneralizedLoss_call_float (GeneralizedLoss_init 2 (1 / 255)) [[[[0]]]] [[[[1]]]])"
  by (simp add: GeneralizedLoss_call_float_def GeneralizedLoss_init_def py_truediv_def tsub_def
      tzip_def fl_pow_def fl_sub_def fl_mean_def K_pow_def fl_pos_def fl_mul_def)

section \<open>Identical inputs\<close>

lemma loss_elem_0: "loss_elem a b 0 = 0"
  by (simp add: loss_elem_def)

lemma K_mean_zeros: "K_mean (map (\<lambda>_. 0) xs) = 0"
  by (simp add: K_mean_def)

lemma tzip_same: "tzip f t t = tmap (\<lambda>x. f x x) t"
  by (simp add: tzip_def tmap_def map2_same)

lemma GeneralizedLoss_call_same:
  "GeneralizedLoss_call self t t = map (map (map (\<lambda>_. 0))) t"
  by (simp add: GeneralizedLoss_call_pixels tsub_def tzip_same tmap_def comp_def
      loss_elem_0 K_mean_zeros)

lemma sum_list_all_zero: "(\<And>x. x \<in> set xs \<Longrightarrow> x = (0::real)) \<Longrightarrow> sum_list xs = 0"
  by (induction xs) simp_all

lemma sum_list_concat_zeros:
  "sum_list (concat (concat (map (map (map (\<lambda>_. 0::real))) X))) = 0"
  by (rule sum_list_all_zero) auto

lemma Loss_call_same:
  "Loss_call (GeneralizedLoss_call self) X X = 0"
  by (simp add: Loss_call_def Let_def GeneralizedLoss_call_same sum_list_concat_zeros)

lemma GradientLoss_call_same: "GradientLoss_call t t = 0"
  by (simp add: GradientLoss_call_def Let_def GradientLoss_generalized_loss_def Loss_call_same)

lemma shaped4_const:
  "shaped4 B H W C t \<Longrightarrow> tmap (\<lambda>_. v) t = full4 B H W C v"
  unfolding tmap_def full4_def shaped4_def list_all_iff
  using map_const_replicate[of t "map (map (map (\<lambda>_. v)))" "replicate H (replicate W (replicate C v))"]
  by (auto simp: shaped3_const)

lemma foldl_idem: "f x x = x \<Longrightarrow> foldl f x (replicate n x) = x"
  by (induction n) simp_all

lemma max_over_replicate:
  "0 < n \<Longrightarrow> f x x = x \<Longrightarrow> max_over f (replicate n x) = Some x"
  by (cases n) (simp_all add: max_over_def foldl_idem)

lemma K_max_12_zeros:
  assumes "0 < H" "0 < W"
  shows "K_max_12 (replicate H (replicate W (replicate C 0))) = [[replicate C 0]]"
proof -
  have a: "map2 max (replicate C (0::real)) (replicate C 0) = replicate C 0"
    by (simp add: map2_same map_replicate_const)
  have b: "map2 (map2 max) (replicate W (replicate C (0::real))) (replicate W (replicate C 0))
             = replicate W (replicate C 0)"
    by (simp add: map2_same a)
  show ?thesis
    by (simp add: K_max_12_def
        max_over_replicate[where f = "map2 (map2 max)", OF assms(1) b]
        max_over_replicate[where f = "map2 max", OF assms(2) a])
qed

lemma LInfNorm_call_same:
  assumes "shaped4 B H W C t" "0 < H" "0 < W"
  shows "LInfNorm_call t t = replicate B [[0]]"
proof -
  have "tmap abs (tsub t t) = tmap (\<lambda>_. 0) t"
    by (simp add: tsub_def tzip_same tmap_def)
  also have "\<dots> = full4 B H W C 0" by (rule shaped4_const[OF assms(1)])
  finally show ?thesis
    by (simp add: LInfNorm_call_def Let_def full4_def K_max_12_zeros[OF assms(2,3)]
        K_mean_def sum_list_replicate)
qed

lemma tzip_tmap_tmap: "tzip f (tmap g t) (tmap h t) = tmap (\<lambda>e. f (g e) (h e)) t"
  by (simp add: tzip_def tmap_def map2_map_map comp_def)

lemma tzip_tmap_left: "tzip f (tmap g t) t = tmap (\<lambda>e. f (g e) e) t"
  using tzip_tmap_tmap[of f g t "\<lambda>e. e"] by (simp add: tmap_def)

lemma tmap_tmap: "tmap f (tmap g t) = tmap (\<lambda>e. f (g e)) t"
  by (simp add: tmap_def comp_def)

lemma gms_same: "(2.0 * e * e + 0.0025) / (e\<^sup>2 + e\<^sup>2 + 0.0025) = (1::real)"
proof -
  have "0 \<le> e\<^sup>2 + e\<^sup>2" by simp
  moreover have "(0::real) < 0.0025" by simp
  ultimately have "0 < e\<^sup>2 + e\<^sup>2 + 0.0025" by (rule add_nonneg_pos)
  then have pos: "e\<^sup>2 + e\<^sup>2 + 0.0025 \<noteq> (0::real)" by (rule less_imp_neq[THEN not_sym])
  have eq: "2.0 * e * e + 0.0025 = e\<^sup>2 + e\<^sup>2 + (0.0025::real)"
    by (simp add: power2_eq_square)
  show ?thesis unfolding eq by (rule divide_self[OF pos])
qed

lemma K_mean_const: "xs \<noteq> [] \<Longrightarrow> K_mean (map (\<lambda>_. v) xs) = v"
  by (simp add: K_mean_def map_replicate_const sum_list_replicate)

lemma K_std_const: "K_std (map (\<lambda>_. v) xs) = 0"
proof (cases "xs = []")
  case True
  then show ?thesis by (simp add: K_std_def K_mean_def)
next
  case False
  then show ?thesis by (simp add: K_std_def K_mean_const comp_def K_mean_zeros)
qed

lemma K_std_123_const: "K_std_123 (map (map (map (\<lambda>_. v))) s) = [[0]]"
proof -
  have "concat (concat (map (map (map (\<lambda>_. v))) s)) = map (\<lambda>_. v) (concat (concat s))"
    by (simp add: map_concat comp_def)
  then show ?thesis by (simp add: K_std_123_def K_std_const)
qed

lemma gmsd_same:
  "map K_std_123
     (tzip (/) (tmap (\<lambda>v. v + 0.0025) (tmul (tmap (\<lambda>v. 2.0 * v) E) E))
               (tmap (\<lambda>v. v + 0.0025) (tadd (tmap (\<lambda>v. v\<^sup>2) E) (tmap (\<lambda>v. v\<^sup>2) E))))
   = replicate (length E) [[0]]"
proof -
  have "tzip (/) (tmap (\<lambda>v. v + 0.0025) (tmul (tmap (\<lambda>v. 2.0 * v) E) E))
               (tmap (\<lambda>v. v + 0.0025) (tadd (tmap (\<lambda>v. v\<^sup>2) E) (tmap (\<lambda>v. v\<^sup>2) E)))
        = tmap (\<lambda>e. (2.0 * e * e + 0.0025) / (e\<^sup>2 + e\<^sup>2 + 0.0025)) E"
    by (simp only: tmul_def tadd_def tzip_tmap_left tzip_tmap_tmap tmap_tmap)
  also have "\<dots> = tmap (\<lambda>_. 1) E"
    by (simp only: gms_same)
  finally show ?thesis
    by (simp add: tmap_def K_std_123_const comp_def map_replicate_const)
qed

lemma pad_ok:
  assumes "shaped4 B H W C t" "3 \<le> H" "3 \<le> W"
  shows "list_all (\<lambda>s. 2 < length s \<and> list_all (\<lambda>r. 2 < length r) s) t"
  using assms by (auto simp: shaped4_def shaped3_def shaped2_def list_all_iff)

lemma length_depthwise_conv2d: "length (depthwise_conv2d x k) = length x"
  unfolding depthwise_conv2d_def Let_def by (rule length_map)

lemma scharr_edges_ok:
  assumes "shaped4 B H W C t" "3 \<le> H" "3 \<le> W"
  shows "\<exists>E. scharr_edges t = Inr E \<and> length E = B"
proof -
  have "tf_pad_reflect t = Inr (map (\<lambda>s. map reflect2 (reflect2 s)) t)"
    using pad_ok[OF assms] by (simp add: tf_pad_reflect_def)
  then have "scharr_edges t =
      Inr (depthwise_conv2d (map (\<lambda>s. map reflect2 (reflect2 s)) t)
             (K_tile_2 (last_dim t) scharr_matrix))"
    by (simp add: scharr_edges_def Let_def)
  then show ?thesis
    using shaped4_length[OF assms(1)] by (simp add: length_depthwise_conv2d)
qed

lemma GMSDLoss_call_same:
  assumes "shaped4 B H W C t" "3 \<le> H" "3 \<le> W"
  shows "GMSDLoss_call t t = Inr (replicate B [[0]])"
proof -
  from scharr_edges_ok[OF assms] obtain E where E: "scharr_edges t = Inr E" "length E = B"
    by blast
  show ?thesis
    unfolding GMSDLoss_call_def E(1) Let_def using gmsd_same[of E] E(2)
    by simp
qed

lemma full4_shaped: "shaped4 B H W C (full4 B H W C v)"
  by (simp add: full4_def shaped4_def shaped3_def shaped2_def list_all_length)

text \<open>
  The structural similarity of an image with itself: on every window both factors of the
  index are 1, because the constants \<open>c1\<close> and \<open>c2\<close> are positive and a weighted variance
  with non-negative weights is not negative; the image has a window as soon as it is not
  smaller than the filter.
\<close>

lemma gauss_window_nonneg: "v \<in> set (gauss_window f sigma) \<Longrightarrow> 0 \<le> v"
proof -
  let ?g = "concat (map (\<lambda>i. map (\<lambda>j. gauss f sigma i * gauss f sigma j) [0..<f]) [0..<f])"
  have g: "0 \<le> u" if "u \<in> set ?g" for u
    using that by (auto simp: gauss_def)
  then have "0 \<le> sum_list ?g" by (rule sum_list_nonneg)
  then show "v \<in> set (gauss_window f sigma) \<Longrightarrow> 0 \<le> v"
    using g by (auto simp: gauss_window_def Let_def simp del: set_concat)
qed

lemma wmean_nonneg:
  assumes "\<And>v. v \<in> set w \<Longrightarrow> 0 \<le> v" and "\<And>z. z \<in> set zs \<Longrightarrow> 0 \<le> z"
  shows "0 \<le> wmean w zs"
  unfolding wmean_def
proof (rule sum_list_nonneg)
  fix u assume "u \<in> set (map2 (*) w zs)"
  then obtain a z where u: "u = a * z" and az: "(a, z) \<in> set (zip w zs)" by auto
  from az have "a \<in> set w" and "z \<in> set zs"
    by (auto dest: set_zip_leftD set_zip_rightD)
  then have "0 \<le> a" and "0 \<le> z" using assms by blast+
  then show "0 \<le> u" unfolding u by (rule mult_nonneg_nonneg)
qed

lemma wcov_same_nonneg:
  assumes "\<And>v. v \<in> set w \<Longrightarrow> 0 \<le> v"
  shows "0 \<le> wcov w xs xs"
  unfolding wcov_def map2_same
  by (rule wmean_nonneg[OF assms]) auto

lemma luminance_same: "0 < c1 \<Longrightarrow> luminance c1 w xs xs = 1"
proof -
  assume c: "0 < c1"
  have "0 \<le> (wmean w xs)\<^sup>2" by simp
  then have "0 < (wmean w xs)\<^sup>2 + (wmean w xs)\<^sup>2 + c1" using c by linarith
  then show ?thesis
    by (simp add: luminance_def power2_eq_square)
qed

lemma contrast_structure_same:
  assumes "\<And>v. v \<in> set w \<Longrightarrow> 0 \<le> v" and c: "0 < c2"
  shows "contrast_structure c2 w xs xs = 1"
proof -
  have "0 \<le> wcov w xs xs" by (rule wcov_same_nonneg[OF assms(1)])
  then have "0 < wcov w xs xs + wcov w xs xs + c2" using c by linarith
  then show ?thesis by (simp add: contrast_structure_def)
qed

lemma windows_nonempty: "f \<le> length x \<Longrightarrow> f \<le> axis1 x \<Longrightarrow> windows f x \<noteq> []"
proof -
  assume a: "f \<le> length x" "f \<le> axis1 x"
  have "length (windows f x) = (length x + 1 - f) * (axis1 x + 1 - f)"
    by (simp add: windows_def length_concat comp_def sum_list_triv)
  also have "\<dots> > 0" using a by simp
  finally show ?thesis by auto
qed

lemma ssim_plane_same:
  assumes "0 < c1" "0 < c2" "f \<le> length x" "f \<le> axis1 x"
  shows "ssim_plane f sigma c1 c2 x x = 1"
proof -
  have "ssim_plane f sigma c1 c2 x x = K_mean (map (\<lambda>_. 1) (windows f x))"
    unfolding ssim_plane_def
    by (simp add: luminance_same[OF assms(1)]
        contrast_structure_same[OF gauss_window_nonneg assms(2)] case_prod_unfold)
  also have "\<dots> = 1" by (rule K_mean_const[OF windows_nonempty[OF assms(3,4)]])
  finally show ?thesis .
qed

lemma cs_plane_same:
  assumes "0 < c2" "f \<le> length x" "f \<le> axis1 x"
  shows "cs_plane f sigma c2 x x = 1"
proof -
  have "cs_plane f sigma c2 x x = K_mean (map (\<lambda>_. 1) (windows f x))"
    unfolding cs_plane_def
    by (simp add: contrast_structure_same[OF gauss_window_nonneg assms(1)] case_prod_unfold)
  also have "\<dots> = 1" by (rule K_mean_const[OF windows_nonempty[OF assms(2,3)]])
  finally show ?thesis .
qed

lemma length_plane: "length (plane s c) = length s"
  by (simp add: plane_def)

lemma axis1_plane: "axis1 (plane s c) = axis1 s"
  by (cases s) (simp_all add: plane_def axis1_def)

lemma shaped3_axis1: "shaped3 H W C s \<Longrightarrow> 0 < H \<Longrightarrow> axis1 s = W"
  by (cases s) (auto simp: shaped3_def shaped2_def axis1_def)

lemma shaped3_n_channels:
  assumes s: "shaped3 H W C s" and H: "0 < H" and W: "0 < W"
  shows "n_channels s = C"
proof -
  from s H obtain r rs where sr: "s = r # rs" by (cases s) (auto simp: shaped3_def)
  with s have r: "length r = W" "list_all (\<lambda>p. length p = C) r"
    by (auto simp: shaped3_def shaped2_def)
  with W obtain p ps where rp: "r = p # ps" by (cases r) auto
  with r have "length p = C" by simp
  then show ?thesis by (simp add: n_channels_def sr rp)
qed

lemma ssim_same:
  assumes t: "shaped4 B H W C t" and C: "0 < C"
    and f: "0 < fs" "nat fs \<le> H" "nat fs \<le> W"
    and k: "k1 \<noteq> 0" "k2 \<noteq> 0" "max_val \<noteq> 0"
  shows "ssim t t max_val fs sigma k1 k2 = replicate B 1"
proof -
  have c1: "0 < (k1 * max_val)\<^sup>2" and c2: "0 < (k2 * max_val)\<^sup>2" using k by simp_all
  from f have H: "0 < H" and W: "0 < W" by linarith+
  have one: "K_mean (map (\<lambda>c. ssim_plane (nat fs) sigma ((k1 * max_val)\<^sup>2) ((k2 * max_val)\<^sup>2)
                              (plane s c) (plane s c)) [0..<n_channels s]) = 1"
    if "s \<in> set t" for s
  proof -
    from t that have s3: "shaped3 H W C s" by (auto simp: shaped4_def list_all_iff)
    have l: "nat fs \<le> length (plane s c)" and a: "nat fs \<le> axis1 (plane s c)" for c
      using f shaped3_length[OF s3] shaped3_axis1[OF s3 H]
      by (simp_all add: length_plane axis1_plane)
    have n: "[0..<n_channels s] \<noteq> []"
      using shaped3_n_channels[OF s3 H W] C by simp
    show ?thesis
      by (simp only: ssim_plane_same[OF c1 c2 l a] K_mean_const[OF n])
  qed
  have "ssim t t max_val fs sigma k1 k2 = map (\<lambda>_. 1) t"
    unfolding ssim_def map2_same by (rule map_cong[OF refl]) (rule one)
  also have "\<dots> = replicate B 1"
    using shaped4_length[OF t] by (simp add: map_replicate_const)
  finally show ?thesis .
qed

text \<open>
  At every scale of the multiscale index the image is not smaller than the filter when
  the filter fits the coarsest scale, which is what the clamp of \<^verbatim>\<open>MSSSIMLoss.call\<close>
  provides for the height.
\<close>

lemma length_downsample: "length (downsample x) = length x div 2"
  by (simp add: downsample_def)

lemma axis1_downsample: "0 < length x div 2 \<Longrightarrow> axis1 (downsample x) = axis1 x div 2"
proof -
  assume "0 < length x div 2"
  then obtain n where n: "length x div 2 = Suc n" by (cases "length x div 2") auto
  show ?thesis
    by (simp add: downsample_def n upt_conv_Cons axis1_def del: upt_Suc)
qed

lemma msssim_plane_same:
  assumes c1: "0 < c1" and c2: "0 < c2" and f: "0 < f"
  shows "ps \<noteq> [] \<Longrightarrow> f \<le> length x div 2 ^ (length ps - 1) \<Longrightarrow>
         f \<le> axis1 x div 2 ^ (length ps - 1) \<Longrightarrow>
         msssim_plane f sigma c1 c2 ps x x = 1"
proof (induction ps arbitrary: x)
  case Nil
  then show ?case by simp
next
  case (Cons p ps)
  show ?case
  proof (cases ps)
    case Nil
    with Cons.prems have "f \<le> length x" "f \<le> axis1 x" by simp_all
    then have "ssim_plane f sigma c1 c2 x x = 1" by (rule ssim_plane_same[OF c1 c2])
    then show ?thesis using Nil by (simp add: K_pow_1)
  next
    case (Cons q qs)
    let ?n = "length qs"
    from Cons Cons.prems have l: "f \<le> length x div 2 ^ Suc ?n"
      and a: "f \<le> axis1 x div 2 ^ Suc ?n" by simp_all
    have le: "m div 2 ^ Suc ?n \<le> m div 2" and le1: "m div 2 \<le> m"
      and dd: "m div 2 div 2 ^ ?n = m div 2 ^ Suc ?n" for m :: nat
    proof -
      have "m div 2 ^ Suc ?n = m div 2 div 2 ^ ?n" by (simp add: div_mult2_eq)
      then show "m div 2 div 2 ^ ?n = m div 2 ^ Suc ?n" by simp
      then show "m div 2 ^ Suc ?n \<le> m div 2" by (metis div_le_dividend)
      show "m div 2 \<le> m" by simp
    qed
    have lx: "f \<le> length x" and ax: "f \<le> axis1 x"
      using l a le[of "length x"] le[of "axis1 x"] le1[of "length x"] le1[of "axis1 x"]
      by linarith+
    have pos: "0 < length x div 2" using l le[of "length x"] f by linarith
    have cs: "cs_plane f sigma c2 x x = 1" by (rule cs_plane_same[OF c2 lx ax])
    have "msssim_plane f sigma c1 c2 ps (downsample x) (downsample x) = 1"
    proof (rule Cons.IH)
      show "ps \<noteq> []" using Cons by simp
      show "f \<le> length (downsample x) div 2 ^ (length ps - 1)"
        using l by (simp add: Cons length_downsample dd del: power_Suc)
      show "f \<le> axis1 (downsample x) div 2 ^ (length ps - 1)"
        using a by (simp add: Cons axis1_downsample[OF pos] dd del: power_Suc)
    qed
    then show ?thesis using Cons cs by (simp add: K_pow_1)
  qed
qed

lemma ssim_multiscale_same:
  assumes t: "shaped4 B H W C t" and C: "0 < C"
    and pf: "pf \<noteq> []"
    and f: "0 < fs" "nat fs \<le> H div 2 ^ (length pf - 1)" "nat fs \<le> W div 2 ^ (length pf - 1)"
    and k: "k1 \<noteq> 0" "k2 \<noteq> 0" "max_val \<noteq> 0"
  shows "ssim_multiscale t t max_val pf fs sigma k1 k2 = replicate B 1"
proof -
  have c1: "0 < (k1 * max_val)\<^sup>2" and c2: "0 < (k2 * max_val)\<^sup>2" using k by simp_all
  have f0: "0 < nat fs" using f(1) by simp
  have "H div 2 ^ (length pf - 1) \<le> H" "W div 2 ^ (length pf - 1) \<le> W"
    by (rule div_le_dividend)+
  with f f0 have H: "0 < H" and W: "0 < W" by linarith+
  have one: "K_mean (map (\<lambda>c. msssim_plane (nat fs) sigma ((k1 * max_val)\<^sup>2)
                              ((k2 * max_val)\<^sup>2) pf (plane s c) (plane s c))
                        [0..<n_channels s]) = 1"
    if "s \<in> set t" for s
  proof -
    from t that have s3: "shaped3 H W C s" by (auto simp: shaped4_def list_all_iff)
    have l: "nat fs \<le> length (plane s c) div 2 ^ (length pf - 1)"
      and a: "nat fs \<le> axis1 (plane s c) div 2 ^ (length pf - 1)" for c
      using f shaped3_length[OF s3] shaped3_axis1[OF s3 H]
      by (simp_all add: length_plane axis1_plane)
    have n: "[0..<n_channels s] \<noteq> []"
      using shaped3_n_channels[OF s3 H W] C by simp
    show ?thesis
      by (simp only: msssim_plane_same[OF c1 c2 f0 pf l a] K_mean_const[OF n])
  qed
  have "ssim_multiscale t t max_val pf fs sigma k1 k2 = map (\<lambda>_. 1) t"
    unfolding ssim_multiscale_def map2_same by (rule map_cong[OF refl]) (rule one)
  also have "\<dots> = replicate B 1"
    using shaped4_length[OF t] by (simp add: map_replicate_const)
  finally show ?thesis .
qed

lemma DSSIMObjective_call_same:
  assumes t: "shaped4 B H W C t" and C: "0 < C"
    and f: "0 < p_filter_size d" "p_filter_size d \<le> int H" "p_filter_size d \<le> int W"
    and k: "p_k_1 d \<noteq> 0" "p_k_2 d \<noteq> 0" "p_max_value d \<noteq> 0"
  shows "DSSIMObjective_call ssim d t t = replicate B 0"
proof -
  have n: "nat (p_filter_size d) \<le> H" "nat (p_filter_size d) \<le> W" using f by linarith+
  show ?thesis
    unfolding DSSIMObjective_call_def Let_def ssim_same[OF t C f(1) n k]
    by simp
qed

lemma MSSSIMLoss_call_same:
  assumes t: "shaped4 B H W C t" and C: "0 < C"
    and f: "0 < filter_size m"
    and pf: "power_factors m \<noteq> []"
    and H: "2 ^ (length (power_factors m) - 1) \<le> H" and W: "H \<le> W"
    and k: "k_1 m \<noteq> 0" "k_2 m \<noteq> 0" "max_value m \<noteq> 0"
  shows "MSSSIMLoss_call ssim_multiscale m t t = replicate B 0"
proof (cases t)
  case Nil
  with shaped4_length[OF t] show ?thesis
    by (simp add: MSSSIMLoss_call_def Let_def ssim_multiscale_def)
next
  case (Cons s rest)
  let ?n = "length (power_factors m) - 1"
  let ?fs = "min (filter_size m) (get_smallest_size (int_shape_1 t)
                 (int (length (power_factors m)) - 1))"
  from t Cons have "shaped3 H W C s" by (simp add: shaped4_def)
  then have im: "int_shape_1 t = int H"
    using Cons shaped3_length by (simp add: int_shape_1_def)
  have idx: "nat (int (length (power_factors m)) - 1) = ?n" by simp
  have sm: "get_smallest_size (int_shape_1 t) (int (length (power_factors m)) - 1)
              = int (H div 2 ^ ?n)"
    unfolding get_smallest_size_halvings halvings_pow idx im
    by (simp add: zdiv_int)
  have hpos: "0 < H div 2 ^ ?n" using H by (simp add: div_greater_zero_iff)
  have f0: "0 < ?fs" unfolding sm using f hpos by simp
  have fH: "nat ?fs \<le> H div 2 ^ ?n" unfolding sm by simp
  have "H div 2 ^ ?n \<le> W div 2 ^ ?n" using W by (rule div_le_mono)
  with fH have fW: "nat ?fs \<le> W div 2 ^ ?n" by linarith
  show ?thesis
    unfolding MSSSIMLoss_call_def Let_def ssim_multiscale_same[OF t C pf f0 fH fW k]
    by simp
qed

text \<open>
  Claim C5. For identical inputs of a shape valid for every metric, each metric returns
  0: the structural dissimilarity (filter size positive and at most height and width),
  the multiscale loss (filter size positive, at least one power factor, the height at
  least \<open>2\<close> to the number of scales less one and at most the width), both with \<open>k1\<close>,
  \<open>k2\<close> and the dynamic range not 0; the generalized loss at every pixel, on reals and on
  floating-point numbers (\<open>alpha\<close> neither 0 nor 2, \<open>beta\<close> not 0, at least one channel);
  the L-infinity loss, the gradient loss and the gradient magnitude similarity deviation
  (height and width at least 3 for the reflection padding) for every sample, the last
  also on a uniform constant image.
\<close>

theorem identical_inputs_zero_loss:
  assumes t: "shaped4 B H W C t" and H: "3 \<le> H" and W: "3 \<le> W" and C: "0 < C"
    and g: "alpha g \<noteq> 0" "alpha g \<noteq> 2" "beta g \<noteq> 0"
    and d: "0 < p_filter_size d" "p_filter_size d \<le> int H" "p_filter_size d \<le> int W"
           "p_k_1 d \<noteq> 0" "p_k_2 d \<noteq> 0" "p_max_value d \<noteq> 0"
    and m: "0 < filter_size m" "power_factors m \<noteq> []"
           "2 ^ (length (power_factors m) - 1) \<le> H" "H \<le> W"
           "k_1 m \<noteq> 0" "k_2 m \<noteq> 0" "max_value m \<noteq> 0"
  shows "DSSIMObjective_call ssim d t t = replicate B 0 \<and>
         MSSSIMLoss_call ssim_multiscale m t t = replicate B 0 \<and>
         GeneralizedLoss_call g t t = replicate B (replicate H (replicate W 0)) \<and>
         GeneralizedLoss_call_float g t t = Inr (replicate B (replicate H (replicate W (Fin 0)))) \<and>
         LInfNorm_call t t = replicate B [[0]] \<and>
         GradientLoss_call t t = 0 \<and>
         GMSDLoss_call t t = Inr (replicate B [[0]]) \<and>
         GMSDLoss_call (full4 B H W C v) (full4 B H W C v) = Inr (replicate B [[0]])"
proof -
  have dssim: "DSSIMObjective_call ssim d t t = replicate B 0"
    by (rule DSSIMObjective_call_same[OF t C d])
  have msssim: "MSSSIMLoss_call ssim_multiscale m t t = replicate B 0"
    by (rule MSSSIMLoss_call_same[OF t C m])
  have gen: "GeneralizedLoss_call g t t = replicate B (replicate H (replicate W 0))"
    unfolding GeneralizedLoss_call_same by (rule shaped4_const3[OF t])
  have genf: "GeneralizedLoss_call_float g t t =
                Inr (replicate B (replicate H (replicate W (Fin 0))))"
    unfolding GeneralizedLoss_call_float_finite[OF g t t C] gen by simp
  have linf: "LInfNorm_call t t = replicate B [[0]]"
    by (rule LInfNorm_call_same[OF t]) (use H W in simp_all)
  have grad: "GradientLoss_call t t = 0"
    by (rule GradientLoss_call_same)
  have gmsd: "GMSDLoss_call t t = Inr (replicate B [[0]])"
    by (rule GMSDLoss_call_same[OF t H W])
  have unif: "GMSDLoss_call (full4 B H W C v) (full4 B H W C v) = Inr (replicate B [[0]])"
    by (rule GMSDLoss_call_same[OF full4_shaped H W])
  from dssim msssim gen genf linf grad gmsd unif show ?thesis by (intro conjI)
qed

theorem identical_inputs_zero_loss_witness:
  "shaped4 1 32 32 3
     [map (\<lambda>i. map (\<lambda>j. [real i / 32, real j / 32, 1 / 2]) [0..<32]) [0..<32]] \<and>
   DSSIMObjective_call ssim
     \<lparr>p_filter_size = 11, p_filter_sigma = 1.5, p_k_1 = 0.01, p_k_2 = 0.03, p_max_value = 1.0\<rparr>
     [map (\<lambda>i. map (\<lambda>j. [real i / 32, real j / 32, 1 / 2]) [0..<32]) [0..<32]]
     [map (\<lambda>i. map (\<lambda>j. [real i / 32, real j / 32, 1 / 2]) [0..<32]) [0..<32]] = [0] \<and>
   MSSSIMLoss_call ssim_multiscale
     \<lparr>filter_size = 4, filter_sigma = 1.5, k_1 = 0.01, k_2 = 0.03, max_value = 1.0,
      power_factors = [0.0448, 0.2856, 0.3001, 0.2363, 0.1333]\<rparr>
     [map (\<lambda>i. map (\<lambda>j. [real i / 32, real j / 32, 1 / 2]) [0..<32]) [0..<32]]
     [map (\<lambda>i. map (\<lambda>j. [real i / 32, real j / 32, 1 / 2]) [0..<32]) [0..<32]] = [0] \<and>
   GeneralizedLoss_call \<lparr>alpha = 1, beta = 1 / 255\<rparr>
     [map (\<lambda>i. map (\<lambda>j. [real i / 32, real j / 32, 1 / 2]) [0..<32]) [0..<32]]
     [map (\<lambda>i. map (\<lambda>j. [real i / 32, real j / 32, 1 / 2]) [0..<32]) [0..<32]]
     = [replicate 32 (replicate 32 0)] \<and>
   GeneralizedLoss_call_float \<lparr>alpha = 1, beta = 1 / 255\<rparr>
     [map (\<lambda>i. map (\<lambda>j. [real i / 32, real j / 32, 1 / 2]) [0..<32]) [0..<32]]
     [map (\<lambda>i. map (\<lambda>j. [real i / 32, real j / 32, 1 / 2]) [0..<32]) [0..<32]]
     = Inr [replicate 32 (replicate 32 (Fin 0))] \<and>
   LInfNorm_call
     [map (\<lambda>i. map (\<lambda>j. [real i / 32, real j / 32, 1 / 2]) [0..<32]) [0..<32]]
     [map (\<lambda>i. map (\<lambda>j. [real i / 32, real j / 32, 1 / 2]) [0..<32]) [0..<32]] = [[[0]]] \<and>
   GradientLoss_call
     [map (\<lambda>i. map (\<lambda>j. [real i / 32, real j / 32, 1 / 2]) [0..<32]) [0..<32]]
     [map (\<lambda>i. map (\<lambda>j. [real i / 32, real j / 32, 1 / 2]) [0..<32]) [0..<32]] = 0 \<and>
   GMSDLoss_call
     [map (\<lambda>i. map (\<lambda>j. [real i / 32, real j / 32, 1 / 2]) [0..<32]) [0..<32]]
     [map (\<lambda>i. map (\<lambda>j. [real i / 32, real j / 32, 1 / 2]) [0..<32]) [0..<32]] = Inr [[[0]]] \<and>
   GMSDLoss_call (full4 1 32 32 3 (1 / 2)) (full4 1 32 32 3 (1 / 2)) = Inr [[[0]]]"
proof -
  let ?t = "[map (\<lambda>i. map (\<lambda>j. [real i / 32, real j / 32, 1 / 2]) [0..<32]) [0..<32]]"
  let ?g = "\<lparr>alpha = 1, beta = 1 / 255\<rparr>"
  let ?d = "\<lparr>p_filter_size = 11, p_filter_sigma = 1.5, p_k_1 = 0.01, p_k_2 = 0.03,
            p_max_value = 1.0\<rparr>"
  let ?m = "\<lparr>filter_size = 4, filter_sigma = 1.5, k_1 = 0.01, k_2 = 0.03, max_value = 1.0,
            power_factors = [0.0448, 0.2856, 0.3001, 0.2363, 0.1333]\<rparr>"
  have h: "shaped4 1 32 32 3 ?t"
    by (simp add: shaped4_def shaped3_def shaped2_def list_all_iff)
  have n: "(3::nat) \<le> 32" "(0::nat) < 3" by simp_all
  have g: "alpha ?g \<noteq> 0" "alpha ?g \<noteq> 2" "beta ?g \<noteq> 0" by simp_all
  have d: "0 < p_filter_size ?d" "p_filter_size ?d \<le> int 32" "p_filter_size ?d \<le> int 32"
    "p_k_1 ?d \<noteq> 0" "p_k_2 ?d \<noteq> 0" "p_max_value ?d \<noteq> 0" by simp_all
  have m: "0 < filter_size ?m" "power_factors ?m \<noteq> []"
    "2 ^ (length (power_factors ?m) - 1) \<le> (32::nat)" "(32::nat) \<le> 32"
    "k_1 ?m \<noteq> 0" "k_2 ?m \<noteq> 0" "max_value ?m \<noteq> 0" by simp_all
  note r = identical_inputs_zero_loss[where v = "1 / 2", OF h n(1) n(1) n(2) g d m]
  have one: "replicate 1 x = [x]" for x :: 'a by simp
  from r h show ?thesis unfolding one by (intro conjI) (erule conjE | assumption)+
qed

section \<open>Gradient loss: the cross term contributes nothing\<close>

text \<open>
  Both derivative fields of the cross term are all-zero for every input, so the
  generalized loss between them is 0 and the gradient loss is half the sum of the
  four other terms.
\<close>

lemma map2_all:
  "list_all P xs \<Longrightarrow> list_all Q ys \<Longrightarrow> (\<And>x y. P x \<Longrightarrow> Q y \<Longrightarrow> R (f x y)) \<Longrightarrow>
   list_all R (map2 f xs ys)"
  by (auto simp: list_all_length)

lemma all_zero_tsub: "all_zero a \<Longrightarrow> all_zero b \<Longrightarrow> all_zero (tsub a b)"
  unfolding all_zero_def tsub_def tzip_def
  by (erule (1) map2_all)+ simp

lemma all_zero_diff_xy: "all_zero (diff_xy img)"
  by (simp add: diff_xy_zeros all_zero_def list_all_iff)

lemma GeneralizedLoss_call_all_zero:
  assumes "all_zero a" "all_zero b"
  shows "list_all (list_all (list_all (\<lambda>v. v = 0))) (GeneralizedLoss_call self a b)"
proof -
  have z: "all_zero (tsub b a)" by (rule all_zero_tsub[OF assms(2,1)])
  have px: "K_mean (map (loss_elem (alpha self) (beta self)) p) * beta self = 0"
    if "list_all (\<lambda>v. v = 0) p" for p
  proof -
    have "map (loss_elem (alpha self) (beta self)) p = map (\<lambda>_. 0) p"
      using that by (auto simp: list_all_iff loss_elem_0)
    then have "K_mean (map (loss_elem (alpha self) (beta self)) p) = 0"
      by (simp only: K_mean_zeros)
    then show ?thesis by simp
  qed
  show ?thesis
    unfolding GeneralizedLoss_call_pixels using z px
    by (auto simp: all_zero_def list_all_iff)
qed

lemma cross_term_zero:
  "GradientLoss_generalized_loss (diff_xy y_true) (diff_xy y_pred) = 0"
proof -
  let ?L = "GeneralizedLoss_call (GeneralizedLoss_init 1.9999 (1.0 / 255.0))
              (diff_xy y_true) (diff_xy y_pred)"
  have "list_all (list_all (list_all (\<lambda>v. v = 0))) ?L"
    by (rule GeneralizedLoss_call_all_zero[OF all_zero_diff_xy all_zero_diff_xy])
  then have "sum_list (concat (concat ?L)) = 0"
    by (intro sum_list_all_zero) (auto simp: list_all_iff)
  then show ?thesis
    by (simp add: GradientLoss_generalized_loss_def Loss_call_def Let_def)
qed

lemma GradientLoss_call_without_cross_term:
  "GradientLoss_call y_true y_pred =
     (GradientLoss_generalized_loss (diff_x y_true) (diff_x y_pred) +
      GradientLoss_generalized_loss (diff_y y_true) (diff_y y_pred) +
      GradientLoss_generalized_loss (diff_xx y_true) (diff_xx y_pred) +
      GradientLoss_generalized_loss (diff_yy y_true) (diff_yy y_pred)) / 2"
  by (simp add: GradientLoss_call_def Let_def cross_term_zero)

section \<open>Edge maps: shape\<close>

text \<open>
  For an image of shape \<open>(B, H, W, C)\<close> with at least three rows, three columns and one
  channel, \<^verbatim>\<open>_scharr_edges\<close> returns maps of shape \<open>(B, H, W, 2 * C)\<close>.
\<close>

lemma length_reflect2: "2 < length xs \<Longrightarrow> length (reflect2 xs) = length xs + 4"
  by (simp add: reflect2_def)

lemma set_tl_subset: "set (tl xs) \<subseteq> set xs"
  by (cases xs) auto

lemma set_reflect2: "set (reflect2 xs) \<subseteq> set xs"
proof -
  have "set (take 2 (tl xs)) \<subseteq> set xs"
    using set_take_subset[of 2 "tl xs"] set_tl_subset[of xs] by blast
  moreover have "set (take 2 (tl (rev xs))) \<subseteq> set xs"
    using set_take_subset[of 2 "tl (rev xs)"] set_tl_subset[of "rev xs"] by auto
  ultimately show ?thesis by (auto simp: reflect2_def)
qed

lemma kernel_dims:
  assumes "0 < n"
  shows "length (K_tile_2 n scharr_matrix) = 5"
    and "axis1 (K_tile_2 n scharr_matrix) = 5"
    and "axis1 (concat (K_tile_2 n scharr_matrix)) = n"
    and "axis1 (concat (concat (K_tile_2 n scharr_matrix))) = 2"
proof -
  show "length (K_tile_2 n scharr_matrix) = 5"
    by (simp add: K_tile_2_def scharr_matrix_def)
  show "axis1 (K_tile_2 n scharr_matrix) = 5"
    by (simp add: K_tile_2_def scharr_matrix_def axis1_def)
  show "axis1 (concat (K_tile_2 n scharr_matrix)) = n"
    by (simp add: K_tile_2_def scharr_matrix_def axis1_def length_concat sum_list_replicate)
  from assms obtain k where n: "n = Suc k" by (cases n) auto
  show "axis1 (concat (concat (K_tile_2 n scharr_matrix))) = 2"
    unfolding n by (simp add: K_tile_2_def scharr_matrix_def axis1_def)
qed

lemma last_dim_shaped:
  assumes "shaped4 B H W C t" "0 < B" "0 < H" "0 < W"
  shows "last_dim t = C"
proof -
  from assms obtain s t' where t: "t = s # t'" by (cases t) (auto simp: shaped4_def)
  with assms have s3: "shaped3 H W C s" by (simp add: shaped4_def)
  with assms obtain r s' where s: "s = r # s'" by (cases s) (auto simp: shaped3_def)
  with s3 have r2: "shaped2 W C r" by (simp add: shaped3_def)
  with assms obtain p r' where r: "r = p # r'" by (cases r) (auto simp: shaped2_def)
  with r2 have "length p = C" by (simp add: shaped2_def)
  then show ?thesis by (simp add: last_dim_def t s r)
qed

lemma scharr_edges_shape:
  assumes t: "shaped4 B H W C t" and H: "3 \<le> H" and W: "3 \<le> W" and C: "0 < C"
  shows "\<exists>E. scharr_edges t = Inr E \<and> shaped4 B H W (2 * C) E"
proof (cases "B = 0")
  case True
  with t have "t = []" by (simp add: shaped4_def)
  then show ?thesis using True
    by (simp add: scharr_edges_def tf_pad_reflect_def depthwise_conv2d_def shaped4_def Let_def)
next
  case False
  then have ld: "last_dim t = C"
    using last_dim_shaped[OF t] H W by simp
  let ?P = "map (\<lambda>s. map reflect2 (reflect2 s)) t"
  let ?K = "K_tile_2 C scharr_matrix"
  have ok: "list_all (\<lambda>s. 2 < length s \<and> list_all (\<lambda>r. 2 < length r) s) t"
    using t H W by (auto simp: shaped4_def shaped3_def shaped2_def list_all_iff)
  then have E: "scharr_edges t = Inr (depthwise_conv2d ?P ?K)"
    by (simp add: scharr_edges_def tf_pad_reflect_def Let_def ld)
  note kd = kernel_dims[OF C]
  have smp: "length (map reflect2 (reflect2 s)) = H + 4 \<and> axis1 (map reflect2 (reflect2 s)) = W + 4"
    if "s \<in> set t" for s
  proof -
    from that t have s3: "shaped3 H W C s" by (auto simp: shaped4_def list_all_iff)
    then have ls: "length s = H" by (simp add: shaped3_def)
    then have l: "length (reflect2 s) = H + 4" using H by (simp add: length_reflect2)
    then obtain r rs where rr: "reflect2 s = r # rs" by (cases "reflect2 s") auto
    have "r \<in> set s" using set_reflect2[of s] rr by auto
    with s3 have "length r = W" by (auto simp: shaped3_def shaped2_def list_all_iff)
    then have "axis1 (map reflect2 (reflect2 s)) = W + 4"
      using W by (simp add: axis1_def rr length_reflect2)
    with l show ?thesis by simp
  qed
  have "shaped4 B H W (2 * C) (depthwise_conv2d ?P ?K)"
    using shaped4_length[OF t] smp
    by (auto simp: depthwise_conv2d_def Let_def kd shaped4_def shaped3_def shaped2_def
        list_all_iff length_concat comp_def sum_list_triv)
  with E show ?thesis by blast
qed

section \<open>Gradient loss: the weighted average\<close>



























end
